theory Spec2Isabelle
  imports Complex_Main "HOL-Library.Sublist"
begin

section \<open>JavaScript numbers\<close>

text \<open>
  The analyzers compute with JavaScript numbers. A number is modelled as an exact real or
  \<open>NaN\<close>; the rounding of IEEE doubles is not modelled. Every division of the modelled
  code divides a sum over a list by the length of that list, so a zero divisor meets a zero
  dividend only and the quotient is \<open>NaN\<close>; no infinity arises.
\<close>

datatype jsnum = Fin real | NaN

fun js_add :: "jsnum \<Rightarrow> jsnum \<Rightarrow> jsnum" where
  "js_add (Fin a) (Fin b) = Fin (a + b)"
| "js_add _ _ = NaN"

fun js_sub :: "jsnum \<Rightarrow> jsnum \<Rightarrow> jsnum" where
  "js_sub (Fin a) (Fin b) = Fin (a - b)"
| "js_sub _ _ = NaN"

fun js_mul :: "jsnum \<Rightarrow> jsnum \<Rightarrow> jsnum" where
  "js_mul (Fin a) (Fin b) = Fin (a * b)"
| "js_mul _ _ = NaN"

fun js_div :: "jsnum \<Rightarrow> jsnum \<Rightarrow> jsnum" where
  "js_div (Fin a) (Fin b) = (if b = 0 then NaN else Fin (a / b))"
| "js_div _ _ = NaN"

fun js_lt :: "jsnum \<Rightarrow> jsnum \<Rightarrow> bool" where
  "js_lt (Fin a) (Fin b) = (a < b)"
| "js_lt _ _ = False"

fun js_gt :: "jsnum \<Rightarrow> jsnum \<Rightarrow> bool" where
  "js_gt (Fin a) (Fin b) = (a > b)"
| "js_gt _ _ = False"

text \<open>\<open>Math.min\<close>, \<open>Math.max\<close>, \<open>Math.round\<close> (ties towards plus infinity), \<open>Math.sqrt\<close>
  and \<open>Math.pow(x, 2)\<close>.\<close>

fun js_min :: "jsnum \<Rightarrow> jsnum \<Rightarrow> jsnum" where
  "js_min (Fin a) (Fin b) = Fin (min a b)"
| "js_min _ _ = NaN"

fun js_max :: "jsnum \<Rightarrow> jsnum \<Rightarrow> jsnum" where
  "js_max (Fin a) (Fin b) = Fin (max a b)"
| "js_max _ _ = NaN"

fun js_round :: "jsnum \<Rightarrow> jsnum" where
  "js_round (Fin a) = Fin (of_int \<lfloor>a + 1 / 2\<rfloor>)"
| "js_round NaN = NaN"

fun js_sqrt :: "jsnum \<Rightarrow> jsnum" where
  "js_sqrt (Fin a) = (if a < 0 then NaN else Fin (sqrt a))"
| "js_sqrt NaN = NaN"

fun js_pow2 :: "jsnum \<Rightarrow> jsnum" where
  "js_pow2 (Fin a) = Fin (a * a)"
| "js_pow2 NaN = NaN"

definition of_count :: "nat \<Rightarrow> jsnum" where
  "of_count n = Fin (real n)"

definition of_integer :: "int \<Rightarrow> jsnum" where
  "of_integer k = Fin (of_int k)"

fun is_finite :: "jsnum \<Rightarrow> bool" where
  "is_finite (Fin a) = True"
| "is_finite NaN = False"

text \<open>\<open>xs.reduce((a, b) => a + b, 0)\<close>\<close>

definition reduce_sum :: "jsnum list \<Rightarrow> jsnum" where
  "reduce_sum xs = foldl js_add (Fin 0) xs"

section \<open>JavaScript strings\<close>

text \<open>
  A text is a sequence of code units below 256 (Latin-1 text), one \<open>char\<close> each. The
  white space of \<open>\s\<close> and of \<open>trim\<close> in that range is TAB, LF, VT, FF, CR, SPACE and
  NBSP; \<open>\w\<close> is \<open>[A-Za-z0-9_]\<close>; \<open>toLowerCase\<close> moves \<open>A-Z\<close> and the
  upper-case letters of \<open>0xC0-0xDE\<close> (the multiplication sign apart) up by 32.
\<close>

definition code_unit :: "char \<Rightarrow> nat" where
  "code_unit c = of_char c"

definition is_space :: "char \<Rightarrow> bool" where
  "is_space c = (code_unit c \<in> {9, 10, 11, 12, 13, 32, 160})"

definition is_az :: "char \<Rightarrow> bool" where
  "is_az c = (97 \<le> code_unit c \<and> code_unit c \<le> 122)"

definition is_word_char :: "char \<Rightarrow> bool" where
  "is_word_char c =
     (is_az c \<or> (65 \<le> code_unit c \<and> code_unit c \<le> 90)
      \<or> (48 \<le> code_unit c \<and> code_unit c \<le> 57) \<or> code_unit c = 95)"

definition is_terminator :: "char \<Rightarrow> bool" where
  "is_terminator c = (c = CHR ''.'' \<or> c = CHR ''!'' \<or> c = CHR ''?'')"

definition lower_char :: "char \<Rightarrow> char" where
  "lower_char c =
     (if (65 \<le> code_unit c \<and> code_unit c \<le> 90)
         \<or> (192 \<le> code_unit c \<and> code_unit c \<le> 222 \<and> code_unit c \<noteq> 215)
      then char_of (code_unit c + 32) else c)"

definition toLowerCase :: "string \<Rightarrow> string" where
  "toLowerCase s = map lower_char s"

definition trim :: "string \<Rightarrow> string" where
  "trim s = rev (dropWhile is_space (rev (dropWhile is_space s)))"

text \<open>
  \<open>s.split(/[sep]+/)\<close>: the pieces between the maximal runs of separator characters. The
  result is never empty: a string without separator is returned whole, and a run at either
  end leaves an empty piece there.
\<close>

fun split_runs :: "(char \<Rightarrow> bool) \<Rightarrow> string \<Rightarrow> string list" where
  "split_runs sep [] = [[]]"
| "split_runs sep (c # cs) =
     (if sep c then
        (case cs of
           [] \<Rightarrow> [] # split_runs sep cs
         | d # ds \<Rightarrow> if sep d then split_runs sep cs else [] # split_runs sep cs)
      else
        (case split_runs sep cs of
           [] \<Rightarrow> [[c]]
         | p # ps \<Rightarrow> (c # p) # ps))"

definition split_ws :: "string \<Rightarrow> string list" where
  "split_ws s = split_runs is_space s"

definition split_sentences :: "string \<Rightarrow> string list" where
  "split_sentences s = split_runs is_terminator s"

text \<open>\<open>s.includes(p)\<close>: \<open>p\<close> occurs in \<open>s\<close> as a contiguous substring.\<close>

fun str_includes :: "string \<Rightarrow> string \<Rightarrow> bool" where
  "str_includes [] p = (p = [])"
| "str_includes (c # cs) p = (prefix p (c # cs) \<or> str_includes cs p)"

text \<open>
  \<open>(s.match(new RegExp('\\bw\\b', 'gi')) || []).length\<close> for a word \<open>w\<close> of letters and
  a lower-cased \<open>s\<close>: the positions where \<open>w\<close> starts after a non-word character (or at
  the start) and ends before one (or at the end). Two such matches cannot overlap. The flag
  says whether the previous character is a word character.
\<close>

fun count_word :: "string \<Rightarrow> bool \<Rightarrow> string \<Rightarrow> nat" where
  "count_word w prev [] = 0"
| "count_word w prev (c # cs) =
     (if \<not> prev \<and> prefix w (c # cs)
         \<and> (case drop (length w) (c # cs) of [] \<Rightarrow> True | d # ds \<Rightarrow> \<not> is_word_char d)
      then 1 else 0)
     + count_word w (is_word_char c) cs"

definition match_count :: "string \<Rightarrow> string \<Rightarrow> nat" where
  "match_count w s = count_word w False s"

section \<open>Heuristic text scoring\<close>

record heuristic =
  h_score :: int
  h_warnings :: "string list"

text \<open>
  The step shared by the heuristics: when the condition holds, subtract the penalty and push
  the warning.
\<close>

definition penalise :: "bool \<Rightarrow> int \<Rightarrow> string \<Rightarrow> heuristic \<Rightarrow> heuristic" where
  "penalise c p msg h =
     (if c then \<lparr>h_score = h_score h - p, h_warnings = h_warnings h @ [msg]\<rparr> else h)"

definition clamp :: "int \<Rightarrow> int \<Rightarrow> int \<Rightarrow> int" where
  "clamp lo hi x = max lo (min hi x)"

subsection \<open>Sentence statistics (shared by the fallback and the linguistic analysis)\<close>

definition sentences_of :: "string \<Rightarrow> string list" where
  "sentences_of text = filter (\<lambda>s. trim s \<noteq> []) (split_sentences text)"

definition sentenceLengths :: "string \<Rightarrow> nat list" where
  "sentenceLengths text = map (\<lambda>s. length (split_ws (trim s))) (sentences_of text)"

definition avgLen :: "nat list \<Rightarrow> jsnum" where
  "avgLen lens = js_div (reduce_sum (map of_count lens)) (of_count (length lens))"

definition variance :: "nat list \<Rightarrow> jsnum" where
  "variance lens =
     js_div (foldl (\<lambda>sum len. js_add sum (js_pow2 (js_sub (of_count len) (avgLen lens))))
               (Fin 0) lens)
            (of_count (length lens))"

subsection \<open>fallbackAIDetection\<close>

definition formalPhrases :: "string list" where
  "formalPhrases =
     [''it is important to note'', ''it is worth mentioning'',
      ''in conclusion'', ''furthermore'', ''moreover'', ''additionally'',
      ''it should be noted'', ''one might argue'', ''it is essential'',
      ''in today's world'', ''plays a crucial role'',
      ''it is imperative'', ''significantly'', ''consequently'']"

definition sensationalWords :: "string list" where
  "sensationalWords =
     [''shocking'', ''unbelievable'', ''you won't believe'',
      ''breaking'', ''urgent'', ''secret'', ''they don't want you to know'',
      ''exposed'', ''bombshell'', ''mind-blowing'', ''conspiracy'',
      ''mainstream media'', ''cover up'', ''whistleblower'']"

definition absoluteWords :: "string list" where
  "absoluteWords =
     [''always'', ''never'', ''every'', ''all'', ''none'',
      ''completely'', ''totally'', ''absolutely'', ''definitely'',
      ''undoubtedly'', ''certainly'', ''obviously'']"

definition formalCount :: "string \<Rightarrow> nat" where
  "formalCount text = length (filter (str_includes (toLowerCase text)) formalPhrases)"

definition sensationalCount :: "string \<Rightarrow> nat" where
  "sensationalCount text = length (filter (str_includes (toLowerCase text)) sensationalWords)"

definition absoluteCount :: "string \<Rightarrow> nat" where
  "absoluteCount text =
     foldl (\<lambda>n w. n + match_count w (toLowerCase text)) 0 absoluteWords"

text \<open>\<open>new Set(words.map(w => w.toLowerCase().replace(/[^a-z]/g, ''))).size / words.length\<close>\<close>

definition fallback_ttr :: "string \<Rightarrow> jsnum" where
  "fallback_ttr text =
     (let words = split_ws text;
          uniqueWords = remdups (map (\<lambda>w. filter is_az (toLowerCase w)) words)
      in js_div (of_count (length uniqueWords)) (of_count (length words)))"

text \<open>
  The function also counts first-person words into \<open>personalCount\<close>, which it never reads;
  that count is left out.
\<close>

definition fallbackAIDetection :: "string \<Rightarrow> heuristic" where
  "fallbackAIDetection text =
     (let h0 = \<lparr>h_score = 75, h_warnings = []\<rparr>;
          h1 = penalise (js_lt (variance (sentenceLengths text)) (Fin 15)) 15
                 ''Very uniform sentence lengths detected (common in AI text)'' h0;
          h2 = penalise (formalCount text > 3) 10
                 ''Excessive use of formal transitional phrases'' h1;
          h3 = penalise (js_lt (fallback_ttr text) (Fin (4 / 10))) 10
                 ''Low vocabulary diversity detected'' h2;
          h4 = penalise (sensationalCount text > 2) 15
                 ''Sensationalist language patterns detected (potential misinformation)'' h3;
          h5 = penalise (absoluteCount text > 5) 8
                 ''Excessive use of absolute/superlative language'' h4
      in h5\<lparr>h_score := clamp 5 95 (h_score h5)\<rparr>)"

subsection \<open>analyzeLinguistics\<close>

text \<open>
  The function also derives a qualitative perplexity label from the word frequencies; the
  label is shown to the user only and no score or warning depends on it, so it is left out.
\<close>

record linguistics =
  ling_burstiness :: string
  diversityScore :: jsnum
  variationScore :: jsnum
  vocabularyScore :: jsnum
  ling_warnings :: "string list"

text \<open>\<open>words.map(w => w.toLowerCase().replace(/[^a-z']/g, '')).filter(w => w.length > 0)\<close>\<close>

definition cleanWords :: "string \<Rightarrow> string list" where
  "cleanWords text =
     filter (\<lambda>w. length w > 0)
       (map (\<lambda>w. filter (\<lambda>c. is_az c \<or> c = CHR 0x27) (toLowerCase w)) (split_ws text))"

definition ling_ttr :: "string \<Rightarrow> jsnum" where
  "ling_ttr text =
     js_div (of_count (length (remdups (cleanWords text)))) (of_count (length (cleanWords text)))"

definition stdDev :: "string \<Rightarrow> jsnum" where
  "stdDev text = js_sqrt (variance (sentenceLengths text))"

definition push_if :: "bool \<Rightarrow> string \<Rightarrow> string list \<Rightarrow> string list" where
  "push_if c msg ws = (if c then ws @ [msg] else ws)"

definition analyzeLinguistics :: "string \<Rightarrow> linguistics" where
  "analyzeLinguistics text =
     (let vocabulary = js_round (js_min (js_mul (ling_ttr text) (Fin 130)) (Fin 95));
          burstinessValue = js_div (js_round (js_mul (stdDev text) (Fin 10))) (Fin 10);
          variation = js_round (js_min (js_mul (stdDev text) (Fin 8)) (Fin 95));
          diversity = js_round (js_div (js_add vocabulary variation) (Fin 2));
          w1 = push_if (js_lt variation (Fin 35))
                 ''Low sentence length variation (typical of AI-generated text)'' [];
          w2 = push_if (js_lt vocabulary (Fin 35)) ''Limited vocabulary diversity'' w1;
          w3 = push_if (js_lt burstinessValue (Fin 3)) ''Unusually consistent writing rhythm'' w2
      in \<lparr>ling_burstiness =
            (if js_gt burstinessValue (Fin 6) then ''High''
             else if js_gt burstinessValue (Fin 3) then ''Medium'' else ''Low''),
          diversityScore = diversity,
          variationScore = variation,
          vocabularyScore = vocabulary,
          ling_warnings = w3\<rparr>)"

subsection \<open>analyzePatterns\<close>

text \<open>
  The regular expressions of the pattern tables, named after what they look for. Matching is
  done by the engine of the host, which the model takes as a parameter
  \<open>test :: regex \<Rightarrow> string \<Rightarrow> bool\<close>; every expression is built afresh on each call, so
  \<open>pattern.test(text)\<close> is a plain search from the start of the text.
\<close>

datatype regex =
    AsAnAi | Refusal | Delve | Landscape | TemporalPhrase | ImportantToNote
  | SharePrompt | Conspiracy | AbsoluteClaim | WakeUp | AntiEstablishment
  | Links | SourceMention | Quotes

record patterns =
  naturalScore :: int
  credibilityScore :: int
  pat_warnings :: "string list"

definition aiPatterns :: "(regex \<times> int \<times> string option) list" where
  "aiPatterns =
     [(AsAnAi, -30, Some ''Contains AI self-reference''),
      (Refusal, -20, Some ''Contains AI refusal patterns''),
      (Delve, -5, Some (''Uses common AI vocabulary ('' @ [CHR 0x22] @ ''delve'' @ [CHR 0x22] @ '')'')),
      (Landscape, -5, None),
      (TemporalPhrase, -8, Some ''Uses generic temporal phrases''),
      (ImportantToNote, -8, None)]"

definition misinfoPatterns :: "(regex \<times> int \<times> string option) list" where
  "misinfoPatterns =
     [(SharePrompt, -15, Some ''Contains viral sharing prompts''),
      (Conspiracy, -20, Some ''Contains conspiracy language''),
      (AbsoluteClaim, -10, Some ''Makes absolute claims without sourcing''),
      (WakeUp, -15, Some ''Uses manipulation language''),
      (AntiEstablishment, -10, Some ''Uses anti-establishment rhetoric'')]"

definition push_msg :: "string option \<Rightarrow> string list \<Rightarrow> string list" where
  "push_msg msg ws = (case msg of None \<Rightarrow> ws | Some m \<Rightarrow> ws @ [m])"

definition natural_rule ::
  "(regex \<Rightarrow> string \<Rightarrow> bool) \<Rightarrow> string \<Rightarrow> patterns \<Rightarrow> regex \<times> int \<times> string option \<Rightarrow> patterns" where
  "natural_rule test text p r =
     (case r of (pattern, weight, msg) \<Rightarrow>
        if test pattern text
        then p\<lparr>naturalScore := naturalScore p + weight, pat_warnings := push_msg msg (pat_warnings p)\<rparr>
        else p)"

definition credibility_rule ::
  "(regex \<Rightarrow> string \<Rightarrow> bool) \<Rightarrow> string \<Rightarrow> patterns \<Rightarrow> regex \<times> int \<times> string option \<Rightarrow> patterns" where
  "credibility_rule test text p r =
     (case r of (pattern, weight, msg) \<Rightarrow>
        if test pattern text
        then p\<lparr>credibilityScore := credibilityScore p + weight,
               pat_warnings := push_msg msg (pat_warnings p)\<rparr>
        else p)"

definition analyzePatterns :: "(regex \<Rightarrow> string \<Rightarrow> bool) \<Rightarrow> string \<Rightarrow> patterns" where
  "analyzePatterns test text =
     (let p0 = \<lparr>naturalScore = 70, credibilityScore = 70, pat_warnings = []\<rparr>;
          p1 = foldl (natural_rule test text) p0 aiPatterns;
          p2 = foldl (credibility_rule test text) p1 misinfoPatterns;
          hasLinks = test Links text;
          hasSourceMention = test SourceMention text;
          hasQuotes = test Quotes text;
          p3 = (if hasSourceMention \<or> hasLinks
                then p2\<lparr>credibilityScore := credibilityScore p2 + 10\<rparr> else p2);
          p4 = (if hasQuotes then p3\<lparr>credibilityScore := credibilityScore p3 + 5\<rparr> else p3);
          p5 = (if \<not> hasSourceMention \<and> \<not> hasLinks \<and> length text > 500
                then p4\<lparr>credibilityScore := credibilityScore p4 - 5,
                        pat_warnings := pat_warnings p4
                          @ [''No sources or references cited for claims made'']\<rparr>
                else p4)
      in p5\<lparr>naturalScore := clamp 5 95 (naturalScore p5),
            credibilityScore := clamp 5 95 (credibilityScore p5)\<rparr>)"

section \<open>Remote inference\<close>

text \<open>
  A request names the model, carries the credential and a payload: the JSON object
  \<open>{inputs: ...}\<close> for the text models, the raw bytes for the image models. A fetch either
  fails in the network or yields a response with its \<open>ok\<close> flag and a body. Bodies are
  distinguished as far as the code distinguishes them: no JSON at all, the JSON \<open>null\<close>, an
  object with an \<open>error\<close> string, an array of label/score objects, an array whose first
  element is such an array, and any other JSON value. An entry of a label/score array has a
  numeric score and a label that may be missing.
\<close>

datatype item = Item (item_label: "string option") (item_score: real)

datatype body =
    NotJson | JsonNull | ErrorBody string | Labels "item list" | NestedLabels "item list"
  | OtherJson

datatype response = NetworkError | Reply bool body

datatype payload = JsonInputs string | Binary "nat list"

record request =
  model :: string
  bearer :: string
  payload :: payload

datatype event = Fetch request | Sleep nat

definition API_URL :: string where
  "API_URL = ''https://api-inference.huggingface.co/models/''"

text \<open>\<open>Math.round(result.score * 100)\<close>\<close>

definition percent :: "real \<Rightarrow> jsnum" where
  "percent s = js_round (js_mul (Fin s) (Fin 100))"

text \<open>
  The loops over the entries. The text detectors call \<open>result.label.toLowerCase()\<close>, which
  throws on an entry without label (the result \<open>None\<close>, whatever was matched before); the
  image detectors read \<open>item.label?.toLowerCase() || ''\<close>. The last matching entry wins.
\<close>

fun scan_strict :: "(string \<Rightarrow> bool) \<Rightarrow> jsnum \<Rightarrow> item list \<Rightarrow> jsnum option" where
  "scan_strict matches acc [] = Some acc"
| "scan_strict matches acc (it # its) =
     (case item_label it of
        None \<Rightarrow> None
      | Some l \<Rightarrow>
          scan_strict matches
            (if matches (toLowerCase l) then percent (item_score it) else acc) its)"

fun scan_lenient :: "(string \<Rightarrow> bool) \<Rightarrow> jsnum \<Rightarrow> item list \<Rightarrow> jsnum" where
  "scan_lenient matches acc [] = acc"
| "scan_lenient matches acc (it # its) =
     scan_lenient matches
       (if matches (case item_label it of None \<Rightarrow> [] | Some l \<Rightarrow> toLowerCase l)
        then percent (item_score it) else acc) its"

subsection \<open>The text detector\<close>

definition text_request :: "string \<Rightarrow> string \<Rightarrow> string \<Rightarrow> request" where
  "text_request m text apiKey =
     \<lparr>model = API_URL @ m, bearer = apiKey, payload = JsonInputs (take 2000 text)\<rparr>"

definition primary_label :: "string \<Rightarrow> bool" where
  "primary_label label = (label = ''real'' \<or> label = ''label_1'')"

definition alternate_label :: "string \<Rightarrow> bool" where
  "alternate_label label = (str_includes label ''human'' \<or> label = ''label_0'')"

text \<open>
  \<open>tryAlternateModel\<close>: one request to the second model. The value is \<open>None\<close> for the
  \<open>null\<close> of the source and \<open>Some humanScore\<close> otherwise.
\<close>

definition tryAlternateModel :: "response \<Rightarrow> jsnum option" where
  "tryAlternateModel alt =
     (case alt of
        NetworkError \<Rightarrow> None
      | Reply ok data \<Rightarrow>
          if \<not> ok then None
          else (case data of
                  NotJson \<Rightarrow> None
                | Labels (it # its) \<Rightarrow> scan_strict alternate_label (Fin 50) (it # its)
                | NestedLabels its \<Rightarrow> scan_strict alternate_label (Fin 50) its
                | _ \<Rightarrow> Some (Fin 50)))"

text \<open>
  \<open>detectAIContent\<close>. The service is the sequence of its answers to the successive requests
  for the first model, and its answer for the second model; \<open>n\<close> counts the requests made so
  far and \<open>tr\<close> records the fetches and waits. The function is partial: the result \<open>None\<close>
  of the option monad is the call that never returns.
\<close>

partial_function (option) detectAIContent ::
  "(nat \<Rightarrow> response) \<Rightarrow> response \<Rightarrow> string \<Rightarrow> string \<Rightarrow> nat \<Rightarrow> event list
     \<Rightarrow> (event list \<times> jsnum option) option" where
  "detectAIContent srv alt text apiKey n tr =
     (let tr1 = tr @ [Fetch (text_request ''openai-community/roberta-base-openai-detector'' text apiKey)]
      in case srv n of
           NetworkError \<Rightarrow> Some (tr1, None)
         | Reply ok data \<Rightarrow>
             if \<not> ok
             then Some (tr1 @ [Fetch (text_request ''Hello-SimpleAI/chatgpt-detector-roberta'' text apiKey)],
                        tryAlternateModel alt)
             else (case data of
                     NotJson \<Rightarrow> Some (tr1, None)
                   | JsonNull \<Rightarrow> Some (tr1, None)
                   | ErrorBody e \<Rightarrow>
                       if e \<noteq> [] then
                         (if str_includes e ''loading''
                          then detectAIContent srv alt text apiKey (Suc n) (tr1 @ [Sleep 20000])
                          else Some (tr1, None))
                       else Some (tr1, Some (Fin 50))
                   | Labels its \<Rightarrow> Some (tr1, scan_strict primary_label (Fin 50) its)
                   | NestedLabels its \<Rightarrow> Some (tr1, scan_strict primary_label (Fin 50) its)
                   | OtherJson \<Rightarrow> Some (tr1, Some (Fin 50))))"

section \<open>Reports and aggregation\<close>

record entry =
  name :: string
  score :: jsnum

record results =
  breakdown :: "entry list"
  warnings :: "string list"

text \<open>The outcome of a promise under \<open>Promise.allSettled\<close>.\<close>

datatype 'a settled = Fulfilled 'a | Rejected

definition push_entry :: "string \<Rightarrow> jsnum \<Rightarrow> 'a results_scheme \<Rightarrow> 'a results_scheme" where
  "push_entry n s r = r\<lparr>breakdown := breakdown r @ [\<lparr>name = n, score = s\<rparr>]\<rparr>"

definition push_warnings :: "string list \<Rightarrow> 'a results_scheme \<Rightarrow> 'a results_scheme" where
  "push_warnings ws r = r\<lparr>warnings := warnings r @ ws\<rparr>"

text \<open>
  \<open>Math.round(scores.reduce((sum, s) => sum + s, 0) / scores.length)\<close> over
  \<open>scores = results.breakdown.map(b => b.score)\<close>
\<close>

definition overall :: "entry list \<Rightarrow> jsnum" where
  "overall bs =
     (let scores = map score bs
      in js_round (js_div (foldl (\<lambda>sum s. js_add sum s) (Fin 0) scores) (of_count (length scores))))"

text \<open>\<open>[...new Set(warnings)]\<close>: a set keeps its elements in the order of insertion, and
  inserting an element it holds changes nothing.\<close>

definition set_add :: "string list \<Rightarrow> string \<Rightarrow> string list" where
  "set_add seen w = (if w \<in> set seen then seen else seen @ [w])"

definition dedupe :: "string list \<Rightarrow> string list" where
  "dedupe ws = foldl set_add [] ws"

section \<open>The text pipeline\<close>

record text_results = results +
  overallScore :: jsnum
  wordCount :: nat
  sentenceCount :: nat
  burstiness :: string

definition text_ai_step :: "string \<Rightarrow> jsnum option settled \<Rightarrow> text_results \<Rightarrow> text_results" where
  "text_ai_step text aiDetection r =
     (case aiDetection of
        Fulfilled (Some humanScore) \<Rightarrow>
          (let r1 = push_entry ''AI Detection Model (RoBERTa)'' humanScore r
           in if js_lt humanScore (Fin 40)
              then push_warnings
                     [''AI detection model indicates high probability of machine-generated content'']
                     r1
              else r1)
      | _ \<Rightarrow>
          (let fallback = fallbackAIDetection text;
               r1 = push_entry ''AI Detection (Heuristic Fallback)'' (of_integer (h_score fallback)) r
           in if length (h_warnings fallback) > 0
              then push_warnings (h_warnings fallback) r1
              else r1))"

definition text_linguistic_step :: "linguistics settled \<Rightarrow> text_results \<Rightarrow> text_results" where
  "text_linguistic_step linguisticAnalysis r =
     (case linguisticAnalysis of
        Fulfilled ling \<Rightarrow>
          push_warnings (ling_warnings ling)
            (push_entry ''Vocabulary Richness'' (vocabularyScore ling)
              (push_entry ''Sentence Variation'' (variationScore ling)
                (push_entry ''Linguistic Diversity'' (diversityScore ling)
                  (r\<lparr>burstiness := ling_burstiness ling\<rparr>))))
      | Rejected \<Rightarrow> r)"

definition text_pattern_step :: "patterns settled \<Rightarrow> text_results \<Rightarrow> text_results" where
  "text_pattern_step patternAnalysis r =
     (case patternAnalysis of
        Fulfilled pats \<Rightarrow>
          push_warnings (pat_warnings pats)
            (push_entry ''Content Credibility Signals'' (of_integer (credibilityScore pats))
              (push_entry ''Writing Pattern Naturalness'' (of_integer (naturalScore pats)) r))
      | Rejected \<Rightarrow> r)"

text \<open>The body of \<open>TextAnalyzer.analyze\<close> from the settled outcomes of its three sources on.\<close>

definition text_analyze_settled ::
  "string \<Rightarrow> jsnum option settled \<Rightarrow> linguistics settled \<Rightarrow> patterns settled \<Rightarrow> text_results" where
  "text_analyze_settled text aiDetection linguisticAnalysis patternAnalysis =
     (let r0 = \<lparr>breakdown = [], warnings = [], overallScore = Fin 0,
                wordCount = length (filter (\<lambda>w. length w > 0) (split_ws text)),
                sentenceCount = length (filter (\<lambda>s. length (trim s) > 0) (split_sentences text)),
                burstiness = ''N/A''\<rparr>;
          r1 = text_ai_step text aiDetection r0;
          r2 = text_linguistic_step linguisticAnalysis r1;
          r3 = text_pattern_step patternAnalysis r2
      in r3\<lparr>overallScore := overall (breakdown r3), warnings := dedupe (warnings r3)\<rparr>)"

text \<open>
  \<open>TextAnalyzer.analyze\<close>. The detector catches its own failures and the two local analyses
  do not throw on a string, so all three promises are fulfilled; the report is there as soon
  as the detector returns.
\<close>

definition TextAnalyzer_analyze ::
  "(regex \<Rightarrow> string \<Rightarrow> bool) \<Rightarrow> (nat \<Rightarrow> response) \<Rightarrow> response \<Rightarrow> string \<Rightarrow> string
     \<Rightarrow> text_results option" where
  "TextAnalyzer_analyze test srv alt text apiKey =
     (case detectAIContent srv alt text apiKey 0 [] of
        None \<Rightarrow> None
      | Some (tr, aiDetection) \<Rightarrow>
          Some (text_analyze_settled text (Fulfilled aiDetection) (Fulfilled (analyzeLinguistics text))
                  (Fulfilled (analyzePatterns test text))))"

section \<open>The image pipeline\<close>

subsection \<open>The image detectors\<close>

definition image_request :: "string \<Rightarrow> nat list \<Rightarrow> string \<Rightarrow> request" where
  "image_request m binaryData apiKey =
     \<lparr>model = API_URL @ m, bearer = apiKey, payload = Binary binaryData\<rparr>"

definition ai_image_label :: "string \<Rightarrow> bool" where
  "ai_image_label label =
     (str_includes label ''real'' \<or> str_includes label ''human'' \<or> str_includes label ''authentic'')"

definition deepfake_label :: "string \<Rightarrow> bool" where
  "deepfake_label label = (str_includes label ''real'' \<or> label = ''real'')"

text \<open>
  \<open>detectAIGenerated\<close> and \<open>detectDeepfake\<close> are the same function up to the model they
  call and the labels they accept, which are the first two parameters here.
\<close>

partial_function (option) detect_image ::
  "string \<Rightarrow> (string \<Rightarrow> bool) \<Rightarrow> (nat \<Rightarrow> response) \<Rightarrow> nat list \<Rightarrow> string \<Rightarrow> nat \<Rightarrow> event list
     \<Rightarrow> (event list \<times> jsnum option) option" where
  "detect_image m matches srv binaryData apiKey n tr =
     (let tr1 = tr @ [Fetch (image_request m binaryData apiKey)]
      in case srv n of
           NetworkError \<Rightarrow> Some (tr1, None)
         | Reply ok data \<Rightarrow>
             if \<not> ok then
               (case data of
                  ErrorBody e \<Rightarrow>
                    if e \<noteq> [] \<and> str_includes e ''loading''
                    then detect_image m matches srv binaryData apiKey (Suc n) (tr1 @ [Sleep 20000])
                    else Some (tr1, None)
                | _ \<Rightarrow> Some (tr1, None))
             else
               (case data of
                  NotJson \<Rightarrow> Some (tr1, None)
                | Labels its \<Rightarrow> Some (tr1, Some (scan_lenient matches (Fin 50) its))
                | _ \<Rightarrow> Some (tr1, Some (Fin 50))))"

definition detectAIGenerated ::
  "(nat \<Rightarrow> response) \<Rightarrow> nat list \<Rightarrow> string \<Rightarrow> (event list \<times> jsnum option) option" where
  "detectAIGenerated srv binaryData apiKey =
     detect_image ''umm-maybe/AI-image-detector'' ai_image_label srv binaryData apiKey 0 []"

definition detectDeepfake ::
  "(nat \<Rightarrow> response) \<Rightarrow> nat list \<Rightarrow> string \<Rightarrow> (event list \<times> jsnum option) option" where
  "detectDeepfake srv binaryData apiKey =
     detect_image ''dima806/deepfake_vs_real_faces_detection'' deepfake_label srv binaryData apiKey 0 []"

subsection \<open>The image and its metadata\<close>

text \<open>
  The image handed to the analyzer is a \<open>File\<close> or \<open>Blob\<close>: its bytes, its size in bytes
  and, when the browser can load it, the decoded image: its width and height and the RGBA
  samples that \<open>getImageData\<close> returns for the canvas the image was drawn on (four per
  pixel, each below 256). \<open>None\<close> stands for an image that does not load or whose pixels
  cannot be read.
\<close>

record decoded =
  img_width :: nat
  img_height :: nat
  pixels :: "nat \<Rightarrow> nat"

record blob =
  bytes :: "nat list"
  blob_size :: nat
  loadImage :: "decoded option"

record metadata =
  integrityScore :: int
  metadataScore :: int
  meta_warnings :: "string list"

text \<open>The decimal digits of a number, as a template literal prints it.\<close>

fun show_nat :: "nat \<Rightarrow> string" where
  "show_nat n =
     (if n < 10 then [char_of (48 + n)] else show_nat (n div 10) @ [char_of (48 + n mod 10)])"

declare show_nat.simps [simp del]

definition aiDimensions :: "nat list" where
  "aiDimensions = [512, 768, 1024, 256, 2048]"

definition analyzeMetadata :: "blob \<Rightarrow> metadata" where
  "analyzeMetadata imageData =
     (let fileSize = blob_size imageData;
          m0 = \<lparr>integrityScore = 70, metadataScore = 65, meta_warnings = []\<rparr>;
          m1 = (if fileSize > 0 \<and> fileSize < 10000
                then m0\<lparr>integrityScore := integrityScore m0 - 10,
                        meta_warnings := meta_warnings m0
                          @ [''Very small file size may indicate heavy compression or modification'']\<rparr>
                else m0);
          m2 = (if fileSize > 0 \<and> fileSize > 5 * 1024 * 1024
                then m1\<lparr>integrityScore := integrityScore m1 + 5\<rparr> else m1);
          m4 = (case loadImage imageData of
                  None \<Rightarrow> m2
                | Some img \<Rightarrow>
                    (let width = img_width img;
                         height = img_height img;
                         m3 = (if width \<in> set aiDimensions \<and> height \<in> set aiDimensions
                               then m2\<lparr>metadataScore := metadataScore m2 - 15,
                                       meta_warnings := meta_warnings m2
                                         @ [''Image dimensions ('' @ show_nat width @ [CHR 0xD7]
                                            @ show_nat height
                                            @ '') match common AI generation sizes'']\<rparr>
                               else m2)
                     in if width = height \<and> width \<in> set aiDimensions
                        then m3\<lparr>metadataScore := metadataScore m3 - 10,
                                meta_warnings := meta_warnings m3
                                  @ [''Perfect square dimensions common in AI-generated images'']\<rparr>
                        else m3))
      in m4\<lparr>integrityScore := clamp 10 95 (integrityScore m4),
            metadataScore := clamp 10 95 (metadataScore m4)\<rparr>)"

subsection \<open>analyzePixelPatterns\<close>

text \<open>
  The canvas is the image scaled by \<open>Math.min(256 / width, 256 / height, 1)\<close>, each side
  rounded down. A canvas with an empty side has no pixels to read: \<open>getImageData\<close> throws
  and the function answers as for an image that does not load.
\<close>

definition canvas_side :: "nat \<Rightarrow> nat \<Rightarrow> nat \<Rightarrow> nat" where
  "canvas_side w h side =
     nat \<lfloor>real side * min (min (256 / real w) (256 / real h)) 1\<rfloor>"

definition brightness :: "(nat \<Rightarrow> nat) \<Rightarrow> nat \<Rightarrow> nat" where
  "brightness px k =
     nat \<lfloor>real (px (4 * k) + px (4 * k + 1) + px (4 * k + 2)) / 3 + 1 / 2\<rfloor>"

definition colorHistogram :: "(nat \<Rightarrow> nat) \<Rightarrow> nat \<Rightarrow> nat \<Rightarrow> nat" where
  "colorHistogram px totalPixels b = length (filter (\<lambda>k. brightness px k = b) [0..<totalPixels])"

definition smoothnessScore :: "(nat \<Rightarrow> nat) \<Rightarrow> nat \<Rightarrow> nat" where
  "smoothnessScore px totalPixels =
     foldl (\<lambda>acc i. acc + nat \<bar>int (colorHistogram px totalPixels i)
                                   - int (colorHistogram px totalPixels (i - 1))\<bar>)
       0 [1..<255]"

definition is_edge :: "(nat \<Rightarrow> nat) \<Rightarrow> nat \<Rightarrow> nat \<Rightarrow> nat \<Rightarrow> bool" where
  "is_edge px width x y =
     (let left = (y * width + (x - 1)) * 4;
          right = (y * width + (x + 1)) * 4;
          top = ((y - 1) * width + x) * 4;
          bottom = ((y + 1) * width + x) * 4;
          gx = \<bar>int (px right) - int (px left)\<bar>;
          gy = \<bar>int (px bottom) - int (px top)\<bar>
      in sqrt (real_of_int (gx * gx + gy * gy)) > 50)"

definition edgeCount :: "(nat \<Rightarrow> nat) \<Rightarrow> nat \<Rightarrow> nat \<Rightarrow> nat" where
  "edgeCount px width height =
     length (concat (map (\<lambda>y. filter (\<lambda>x. is_edge px width x y) [1..<width - 1]) [1..<height - 1]))"

definition repeatCount :: "(nat \<Rightarrow> nat) \<Rightarrow> nat \<Rightarrow> nat \<Rightarrow> nat \<Rightarrow> nat" where
  "repeatCount px len sampleSize step =
     length (filter (\<lambda>i.
        let idx1 = i * 4 * step; idx2 = (i + step) * 4
        in idx2 + 2 < len \<and> px idx1 = px idx2 \<and> px (idx1 + 1) = px (idx2 + 1)
           \<and> px (idx1 + 2) = px (idx2 + 2)) [0..<sampleSize - step])"

definition analyzePixelPatterns :: "blob \<Rightarrow> heuristic" where
  "analyzePixelPatterns imageData =
     (let failed = \<lparr>h_score = clamp 10 95 60, h_warnings = []\<rparr>
      in case loadImage imageData of
           None \<Rightarrow> failed
         | Some img \<Rightarrow>
             (let width = canvas_side (img_width img) (img_height img) (img_width img);
                  height = canvas_side (img_width img) (img_height img) (img_height img);
                  px = pixels img;
                  totalPixels = width * height;
                  len = 4 * totalPixels;
                  sampleSize = min 1000 totalPixels;
                  step = len div 4 div sampleSize;
                  h0 = \<lparr>h_score = 70, h_warnings = []\<rparr>;
                  h1 = penalise
                         (js_lt (js_div (of_count (smoothnessScore px totalPixels)) (of_count totalPixels))
                            (Fin (3 / 10))) 10
                         ''Unusually smooth color distribution (potential AI generation indicator)'' h0;
                  h2 = penalise
                         (js_lt (js_div (of_count (edgeCount px width height)) (of_count totalPixels))
                            (Fin (5 / 100))) 8
                         ''Low edge density detected (possible over-smoothing)'' h1;
                  h3 = penalise
                         (js_gt (js_div (of_count (repeatCount px len sampleSize step)) (of_count sampleSize))
                            (Fin (3 / 10))) 10
                         ''Repeating pixel patterns detected'' h2
              in if width = 0 \<or> height = 0 then failed
                 else h3\<lparr>h_score := clamp 10 95 (h_score h3)\<rparr>))"

definition fallbackImageAnalysis :: heuristic where
  "fallbackImageAnalysis =
     \<lparr>h_score = 60, h_warnings = [''API unavailable - using basic heuristic analysis'']\<rparr>"

subsection \<open>ImageAnalyzer.analyze\<close>

text \<open>The \<open>format\<close> field of the report is shown to the user only and is left out.\<close>

record image_results = results +
  authenticityScore :: jsnum
  aiGenerated :: bool
  deepfakeScore :: jsnum
  manipulationScore :: jsnum

definition image_ai_step :: "jsnum option settled \<Rightarrow> image_results \<Rightarrow> image_results" where
  "image_ai_step aiDetection r =
     (case aiDetection of
        Fulfilled (Some realScore) \<Rightarrow>
          (let r1 = push_entry ''AI Image Detection'' realScore
                      (r\<lparr>aiGenerated := js_lt realScore (Fin 50)\<rparr>)
           in if js_lt realScore (Fin 40)
              then push_warnings [''Image shows strong indicators of AI generation''] r1
              else r1)
      | _ \<Rightarrow>
          push_entry ''AI Detection (Heuristic)'' (of_integer (h_score fallbackImageAnalysis)) r)"

definition image_deepfake_step :: "jsnum option settled \<Rightarrow> image_results \<Rightarrow> image_results" where
  "image_deepfake_step deepfakeDetection r =
     (case deepfakeDetection of
        Fulfilled (Some realScore) \<Rightarrow>
          (let r1 = push_entry ''Deepfake Detection'' realScore
                      (r\<lparr>deepfakeScore := js_sub (Fin 100) realScore\<rparr>)
           in if js_lt realScore (Fin 40)
              then push_warnings [''Deepfake indicators detected in the image''] r1
              else r1)
      | _ \<Rightarrow> push_entry ''Deepfake Detection'' (Fin 70) r)"

definition image_metadata_step :: "metadata settled \<Rightarrow> image_results \<Rightarrow> image_results" where
  "image_metadata_step metadataAnalysis r =
     (case metadataAnalysis of
        Fulfilled meta \<Rightarrow>
          (let r1 = push_entry ''Metadata Consistency'' (of_integer (metadataScore meta))
                      (push_entry ''File Integrity'' (of_integer (integrityScore meta)) r);
               r2 = (if length (meta_warnings meta) > 0
                     then push_warnings (meta_warnings meta) r1 else r1)
           in r2\<lparr>manipulationScore := js_sub (Fin 100) (of_integer (integrityScore meta))\<rparr>)
      | Rejected \<Rightarrow>
          push_entry ''Metadata Consistency'' (Fin 60) (push_entry ''File Integrity'' (Fin 65) r))"

definition image_pixel_step :: "heuristic \<Rightarrow> image_results \<Rightarrow> image_results" where
  "image_pixel_step pixelAnalysis r =
     (let r1 = push_entry ''Pixel Pattern Analysis'' (of_integer (h_score pixelAnalysis)) r
      in if length (h_warnings pixelAnalysis) > 0
         then push_warnings (h_warnings pixelAnalysis) r1 else r1)"

text \<open>The body of \<open>ImageAnalyzer.analyze\<close> from the settled outcomes of its three sources on.\<close>

definition image_analyze_settled ::
  "blob \<Rightarrow> jsnum option settled \<Rightarrow> jsnum option settled \<Rightarrow> metadata settled \<Rightarrow> image_results" where
  "image_analyze_settled imageData aiDetection deepfakeDetection metadataAnalysis =
     (let r0 = \<lparr>breakdown = [], warnings = [], authenticityScore = Fin 0, aiGenerated = False,
                deepfakeScore = Fin 0, manipulationScore = Fin 0\<rparr>;
          r1 = image_ai_step aiDetection r0;
          r2 = image_deepfake_step deepfakeDetection r1;
          r3 = image_metadata_step metadataAnalysis r2;
          r4 = image_pixel_step (analyzePixelPatterns imageData) r3
      in r4\<lparr>authenticityScore := overall (breakdown r4), warnings := dedupe (warnings r4)\<rparr>)"

text \<open>
  \<open>ImageAnalyzer.analyze\<close>. Each detector talks to its own model; both catch their own
  failures and the metadata analysis catches the failure to load the image, so all three
  promises are fulfilled.
\<close>

definition ImageAnalyzer_analyze ::
  "(nat \<Rightarrow> response) \<Rightarrow> (nat \<Rightarrow> response) \<Rightarrow> blob \<Rightarrow> string \<Rightarrow> image_results option" where
  "ImageAnalyzer_analyze srv_ai srv_df imageData apiKey =
     (case detectAIGenerated srv_ai (bytes imageData) apiKey of
        None \<Rightarrow> None
      | Some (tr_ai, aiDetection) \<Rightarrow>
          (case detectDeepfake srv_df (bytes imageData) apiKey of
             None \<Rightarrow> None
           | Some (tr_df, deepfakeDetection) \<Rightarrow>
               Some (image_analyze_settled imageData (Fulfilled aiDetection)
                       (Fulfilled deepfakeDetection) (Fulfilled (analyzeMetadata imageData)))))"

section \<open>Presentation of the verdict\<close>

text \<open>\<open>renderTextResults\<close> and \<open>renderImageResults\<close> band the overall score.\<close>

datatype verdict = authentic | suspicious | fake

definition text_verdict :: "text_results \<Rightarrow> verdict" where
  "text_verdict r =
     (if js_gt (overallScore r) (Fin 70) then authentic
      else if js_gt (overallScore r) (Fin 40) then suspicious else fake)"

definition image_verdict :: "image_results \<Rightarrow> verdict" where
  "image_verdict r =
     (if js_gt (authenticityScore r) (Fin 70) then authentic
      else if js_gt (authenticityScore r) (Fin 40) then suspicious else fake)"

text \<open>The image view shows the deepfake and manipulation scores as flags.\<close>

definition deepfake_likely :: "image_results \<Rightarrow> bool" where
  "deepfake_likely r = js_gt (deepfakeScore r) (Fin 50)"

definition manipulation_detected :: "image_results \<Rightarrow> bool" where
  "manipulation_detected r = js_gt (manipulationScore r) (Fin 50)"

section \<open>Notions of the specification\<close>

text \<open>The rounded arithmetic mean of a list of scores; a score that is not a number makes
  the mean not a number.\<close>

fun the_fin :: "jsnum \<Rightarrow> real" where
  "the_fin (Fin a) = a"
| "the_fin NaN = 0"

definition mean :: "real list \<Rightarrow> real" where
  "mean xs = sum_list xs / real (length xs)"

definition rounded_mean :: "jsnum list \<Rightarrow> jsnum" where
  "rounded_mean xs =
     (if list_all is_finite xs then Fin (of_int (round (mean (map the_fin xs)))) else NaN)"

text \<open>A list without its repetitions: each element stays where it first appears.\<close>

fun first_occurrences :: "'a list \<Rightarrow> 'a list" where
  "first_occurrences [] = []"
| "first_occurrences (x # xs) = x # first_occurrences (filter (\<lambda>y. y \<noteq> x) xs)"

text \<open>The bands of the verdict: above 70, from 41 to 70, at most 40.\<close>

definition verdict_band :: "int \<Rightarrow> verdict" where
  "verdict_band k =
     (if 70 < k then authentic else if 41 \<le> k \<and> k \<le> 70 then suspicious else fake)"

section \<open>Sample inputs\<close>

definition sample_image :: blob where
  "sample_image = \<lparr>bytes = [137, 80, 78, 71], blob_size = 4, loadImage = None\<rparr>"

text \<open>The five penalty conditions of the heuristic text fallback, the penalty of each, and
  the conditions that a text triggers.\<close>

datatype condition = UniformSentences | FormalPhrases | LowDiversity | Sensationalism | Absolutes

fun penalty :: "condition \<Rightarrow> int" where
  "penalty UniformSentences = 15"
| "penalty FormalPhrases = 10"
| "penalty LowDiversity = 10"
| "penalty Sensationalism = 15"
| "penalty Absolutes = 8"

fun holds :: "string \<Rightarrow> condition \<Rightarrow> bool" where
  "holds text UniformSentences = js_lt (variance (sentenceLengths text)) (Fin 15)"
| "holds text FormalPhrases = (formalCount text > 3)"
| "holds text LowDiversity = js_lt (fallback_ttr text) (Fin (4 / 10))"
| "holds text Sensationalism = (sensationalCount text > 2)"
| "holds text Absolutes = (absoluteCount text > 5)"

definition conditions :: "condition list" where
  "conditions = [UniformSentences, FormalPhrases, LowDiversity, Sensationalism, Absolutes]"

definition triggered :: "string \<Rightarrow> condition list" where
  "triggered text = filter (holds text) conditions"

text \<open>A text that triggers every condition of the fallback.\<close>

definition sample_marked :: string where
  "sample_marked =
     ''Moreover/furthermore/additionally/consequently: urgent-secret-exposed all all all all all all''"

text \<open>A label/score array without any label that a detector looks for.\<close>

definition sample_unknown_labels :: "item list" where
  "sample_unknown_labels = [Item (Some ''FAKE'') (9 / 10), Item (Some ''Other'') (1 / 10)]"

text \<open>
  The answers that make a detector wait and ask again: for the image detectors a response
  without success whose error string contains \<open>loading\<close>, for the text detector a response
  with success whose error string does.
\<close>

definition image_loading :: "response \<Rightarrow> bool" where
  "image_loading r =
     (case r of
        Reply ok (ErrorBody e) \<Rightarrow> \<not> ok \<and> e \<noteq> [] \<and> str_includes e ''loading''
      | _ \<Rightarrow> False)"

definition text_loading :: "response \<Rightarrow> bool" where
  "text_loading r =
     (case r of
        Reply ok (ErrorBody e) \<Rightarrow> ok \<and> e \<noteq> [] \<and> str_includes e ''loading''
      | _ \<Rightarrow> False)"

text \<open>The two requests of the text detector.\<close>

definition primary_request :: "string \<Rightarrow> string \<Rightarrow> request" where
  "primary_request text apiKey =
     text_request ''openai-community/roberta-base-openai-detector'' text apiKey"

definition alternate_request :: "string \<Rightarrow> string \<Rightarrow> request" where
  "alternate_request text apiKey =
     text_request ''Hello-SimpleAI/chatgpt-detector-roberta'' text apiKey"

text \<open>The error body of a model that is still loading.\<close>

definition sample_loading :: body where
  "sample_loading = ErrorBody ''Model is currently loading''"

text \<open>The one trace of an AI classification that a text report can carry: the warning of
  the remote detector.\<close>

definition ai_text_warning :: string where
  "ai_text_warning = ''AI detection model indicates high probability of machine-generated content''"

definition text_flags_ai :: "text_results \<Rightarrow> bool" where
  "text_flags_ai r = (ai_text_warning \<in> set (warnings r))"

subsection \<open>Ranges and texts\<close>

text \<open>A score within the range from 0 to 100.\<close>

fun in_range :: "jsnum \<Rightarrow> bool" where
  "in_range (Fin x) = (0 \<le> x \<and> x \<le> 100)"
| "in_range NaN = False"

text \<open>A text with a word that holds a letter, with a sentence that is not empty, and a text
  of white space only.\<close>

definition is_letter :: "char \<Rightarrow> bool" where
  "is_letter c = (is_az c \<or> (65 \<le> code_unit c \<and> code_unit c \<le> 90))"

definition has_letter_word :: "string \<Rightarrow> bool" where
  "has_letter_word text = (\<exists>w \<in> set (split_ws text). \<exists>c \<in> set w. is_letter c)"

definition has_sentence :: "string \<Rightarrow> bool" where
  "has_sentence text = (sentences_of text \<noteq> [])"

definition whitespace_only :: "string \<Rightarrow> bool" where
  "whitespace_only text = (\<forall>c \<in> set text. is_space c)"

text \<open>The scores of a response, and a response whose scores are probabilities.\<close>

definition response_items :: "response \<Rightarrow> item list" where
  "response_items r =
     (case r of
        Reply ok (Labels its) \<Rightarrow> its
      | Reply ok (NestedLabels its) \<Rightarrow> its
      | _ \<Rightarrow> [])"

definition probabilities :: "response \<Rightarrow> bool" where
  "probabilities r = (\<forall>it \<in> set (response_items r). 0 \<le> item_score it \<and> item_score it \<le> 1)"

section \<open>Aggregation: lemmas\<close>

lemma foldl_js_add_NaN: "foldl js_add NaN xs = NaN"
  by (induction xs) auto

lemma foldl_js_add_Fin:
  "foldl js_add (Fin a) xs = (if list_all is_finite xs then Fin (a + sum_list (map the_fin xs)) else NaN)"
proof (induction xs arbitrary: a)
  case Nil
  then show ?case by simp
next
  case (Cons x xs)
  then show ?case by (cases x) (auto simp: foldl_js_add_NaN)
qed

lemma overall_rounded_mean: "bs \<noteq> [] \<Longrightarrow> overall bs = rounded_mean (map score bs)"
  by (simp add: overall_def rounded_mean_def mean_def Let_def foldl_js_add_Fin of_count_def round_def)

lemma breakdown_push_entry: "breakdown (push_entry n s r) = breakdown r @ [\<lparr>name = n, score = s\<rparr>]"
  by (simp add: push_entry_def)

lemma breakdown_push_warnings: "breakdown (push_warnings ws r) = breakdown r"
  by (simp add: push_warnings_def)

lemma warnings_push_entry: "warnings (push_entry n s r) = warnings r"
  by (simp add: push_entry_def)

lemma warnings_push_warnings: "warnings (push_warnings ws r) = warnings r @ ws"
  by (simp add: push_warnings_def)

lemmas push_simps = breakdown_push_entry breakdown_push_warnings warnings_push_entry warnings_push_warnings

lemma breakdown_text_ai_step:
  "breakdown (text_ai_step text ai r) = breakdown r @ [(case ai of
        Fulfilled (Some humanScore) \<Rightarrow> \<lparr>name = ''AI Detection Model (RoBERTa)'', score = humanScore\<rparr>
      | _ \<Rightarrow> \<lparr>name = ''AI Detection (Heuristic Fallback)'',
               score = of_integer (h_score (fallbackAIDetection text))\<rparr>)]"
  by (auto simp: text_ai_step_def Let_def push_simps split: settled.splits option.splits)

lemma breakdown_text_linguistic_step:
  "breakdown (text_linguistic_step ling r) = breakdown r @
     (case ling of Fulfilled l \<Rightarrow> [\<lparr>name = ''Linguistic Diversity'', score = diversityScore l\<rparr>,
         \<lparr>name = ''Sentence Variation'', score = variationScore l\<rparr>,
         \<lparr>name = ''Vocabulary Richness'', score = vocabularyScore l\<rparr>] | Rejected \<Rightarrow> [])"
  by (auto simp: text_linguistic_step_def push_simps split: settled.splits)

lemma breakdown_text_pattern_step:
  "breakdown (text_pattern_step pat r) = breakdown r @
     (case pat of Fulfilled p \<Rightarrow> [\<lparr>name = ''Writing Pattern Naturalness'', score = of_integer (naturalScore p)\<rparr>,
         \<lparr>name = ''Content Credibility Signals'', score = of_integer (credibilityScore p)\<rparr>] | Rejected \<Rightarrow> [])"
  by (auto simp: text_pattern_step_def push_simps split: settled.splits)

lemma breakdown_text_analyze_settled:
  "breakdown (text_analyze_settled text ai ling pat) =
     [(case ai of
        Fulfilled (Some humanScore) \<Rightarrow> \<lparr>name = ''AI Detection Model (RoBERTa)'', score = humanScore\<rparr>
      | _ \<Rightarrow> \<lparr>name = ''AI Detection (Heuristic Fallback)'',
               score = of_integer (h_score (fallbackAIDetection text))\<rparr>)] @
     (case ling of Fulfilled l \<Rightarrow> [\<lparr>name = ''Linguistic Diversity'', score = diversityScore l\<rparr>,
         \<lparr>name = ''Sentence Variation'', score = variationScore l\<rparr>,
         \<lparr>name = ''Vocabulary Richness'', score = vocabularyScore l\<rparr>] | Rejected \<Rightarrow> []) @
     (case pat of Fulfilled p \<Rightarrow> [\<lparr>name = ''Writing Pattern Naturalness'', score = of_integer (naturalScore p)\<rparr>,
         \<lparr>name = ''Content Credibility Signals'', score = of_integer (credibilityScore p)\<rparr>] | Rejected \<Rightarrow> [])"
  by (simp add: text_analyze_settled_def Let_def breakdown_text_ai_step breakdown_text_linguistic_step breakdown_text_pattern_step)

lemma overallScore_text_analyze_settled:
  "overallScore (text_analyze_settled text ai ling pat) = overall (breakdown (text_analyze_settled text ai ling pat))"
  by (simp add: text_analyze_settled_def Let_def)


lemma set_add_mem: "w \<in> set seen \<Longrightarrow> set_add seen w = seen"
  by (simp add: set_add_def)

lemma set_add_new: "w \<notin> set seen \<Longrightarrow> set_add seen w = seen @ [w]"
  by (simp add: set_add_def)

lemma foldl_set_add:
  "foldl set_add acc ws = acc @ first_occurrences (filter (\<lambda>w. w \<notin> set acc) ws)"
proof (induction ws arbitrary: acc)
  case Nil
  then show ?case by simp
next
  case (Cons x xs)
  show ?case
  proof (cases "x \<in> set acc")
    case True
    then show ?thesis by (simp add: set_add_mem Cons.IH)
  next
    case False
    have "filter (\<lambda>w. w \<notin> set (acc @ [x])) xs = filter (\<lambda>y. y \<noteq> x) (filter (\<lambda>w. w \<notin> set acc) xs)"
      by (induction xs) auto
    with False show ?thesis by (simp add: set_add_new Cons.IH)
  qed
qed

lemma dedupe_first_occurrences: "dedupe ws = first_occurrences ws"
  by (simp add: dedupe_def foldl_set_add)

lemma set_first_occurrences: "set (first_occurrences xs) = set xs"
  by (induction xs rule: first_occurrences.induct) auto

lemma distinct_first_occurrences: "distinct (first_occurrences xs)"
  by (induction xs rule: first_occurrences.induct) (auto simp: set_first_occurrences)

lemma warnings_text_ai_step:
  "warnings (text_ai_step text ai r) = warnings r @
     (case ai of
        Fulfilled (Some humanScore) \<Rightarrow>
          if js_lt humanScore (Fin 40)
          then [''AI detection model indicates high probability of machine-generated content'']
          else []
      | _ \<Rightarrow> h_warnings (fallbackAIDetection text))"
  by (auto simp: text_ai_step_def Let_def push_simps split: settled.splits option.splits)

lemma warnings_text_linguistic_step:
  "warnings (text_linguistic_step ling r) = warnings r @
     (case ling of Fulfilled l \<Rightarrow> ling_warnings l | Rejected \<Rightarrow> [])"
  by (auto simp: text_linguistic_step_def push_simps split: settled.splits)

lemma warnings_text_pattern_step:
  "warnings (text_pattern_step pat r) = warnings r @
     (case pat of Fulfilled p \<Rightarrow> pat_warnings p | Rejected \<Rightarrow> [])"
  by (auto simp: text_pattern_step_def push_simps split: settled.splits)

lemma warnings_text_analyze_settled:
  "warnings (text_analyze_settled text ai ling pat) =
     dedupe
      ((case ai of
          Fulfilled (Some humanScore) \<Rightarrow>
            if js_lt humanScore (Fin 40)
            then [''AI detection model indicates high probability of machine-generated content'']
            else []
        | _ \<Rightarrow> h_warnings (fallbackAIDetection text)) @
       (case ling of Fulfilled l \<Rightarrow> ling_warnings l | Rejected \<Rightarrow> []) @
       (case pat of Fulfilled p \<Rightarrow> pat_warnings p | Rejected \<Rightarrow> []))"
  by (simp add: text_analyze_settled_def Let_def warnings_text_ai_step warnings_text_linguistic_step
      warnings_text_pattern_step)

lemma breakdown_image_ai_step:
  "breakdown (image_ai_step ai r) = breakdown r @
     [case ai of
        Fulfilled (Some realScore) \<Rightarrow> \<lparr>name = ''AI Image Detection'', score = realScore\<rparr>
      | _ \<Rightarrow> \<lparr>name = ''AI Detection (Heuristic)'', score = Fin 60\<rparr>]"
  by (auto simp: image_ai_step_def Let_def push_simps fallbackImageAnalysis_def of_integer_def
      split: settled.splits option.splits)

lemma breakdown_image_deepfake_step:
  "breakdown (image_deepfake_step df r) = breakdown r @
     [\<lparr>name = ''Deepfake Detection'',
       score = (case df of Fulfilled (Some realScore) \<Rightarrow> realScore | _ \<Rightarrow> Fin 70)\<rparr>]"
  by (auto simp: image_deepfake_step_def Let_def push_simps split: settled.splits option.splits)

lemma breakdown_image_metadata_step:
  "breakdown (image_metadata_step meta r) = breakdown r @
     [\<lparr>name = ''File Integrity'',
       score = (case meta of Fulfilled m \<Rightarrow> of_integer (integrityScore m) | Rejected \<Rightarrow> Fin 65)\<rparr>,
      \<lparr>name = ''Metadata Consistency'',
       score = (case meta of Fulfilled m \<Rightarrow> of_integer (metadataScore m) | Rejected \<Rightarrow> Fin 60)\<rparr>]"
  by (auto simp: image_metadata_step_def Let_def push_simps split: settled.splits)

lemma breakdown_image_pixel_step:
  "breakdown (image_pixel_step px r) = breakdown r @
     [\<lparr>name = ''Pixel Pattern Analysis'', score = of_integer (h_score px)\<rparr>]"
  by (auto simp: image_pixel_step_def Let_def push_simps)

lemma breakdown_image_analyze_settled:
  "breakdown (image_analyze_settled img ai df meta) =
     [case ai of
        Fulfilled (Some realScore) \<Rightarrow> \<lparr>name = ''AI Image Detection'', score = realScore\<rparr>
      | _ \<Rightarrow> \<lparr>name = ''AI Detection (Heuristic)'', score = Fin 60\<rparr>,
      \<lparr>name = ''Deepfake Detection'',
       score = (case df of Fulfilled (Some realScore) \<Rightarrow> realScore | _ \<Rightarrow> Fin 70)\<rparr>,
      \<lparr>name = ''File Integrity'',
       score = (case meta of Fulfilled m \<Rightarrow> of_integer (integrityScore m) | Rejected \<Rightarrow> Fin 65)\<rparr>,
      \<lparr>name = ''Metadata Consistency'',
       score = (case meta of Fulfilled m \<Rightarrow> of_integer (metadataScore m) | Rejected \<Rightarrow> Fin 60)\<rparr>,
      \<lparr>name = ''Pixel Pattern Analysis'', score = of_integer (h_score (analyzePixelPatterns img))\<rparr>]"
  by (simp add: image_analyze_settled_def Let_def breakdown_image_ai_step
      breakdown_image_deepfake_step breakdown_image_metadata_step breakdown_image_pixel_step)

lemma authenticityScore_image_analyze_settled:
  "authenticityScore (image_analyze_settled img ai df meta) =
     overall (breakdown (image_analyze_settled img ai df meta))"
  by (simp add: image_analyze_settled_def Let_def)

lemma warnings_image_ai_step:
  "warnings (image_ai_step ai r) = warnings r @
     (case ai of
        Fulfilled (Some realScore) \<Rightarrow>
          if js_lt realScore (Fin 40) then [''Image shows strong indicators of AI generation''] else []
      | _ \<Rightarrow> [])"
  by (auto simp: image_ai_step_def Let_def push_simps split: settled.splits option.splits)

lemma warnings_image_deepfake_step:
  "warnings (image_deepfake_step df r) = warnings r @
     (case df of
        Fulfilled (Some realScore) \<Rightarrow>
          if js_lt realScore (Fin 40) then [''Deepfake indicators detected in the image''] else []
      | _ \<Rightarrow> [])"
  by (auto simp: image_deepfake_step_def Let_def push_simps split: settled.splits option.splits)

lemma warnings_image_metadata_step:
  "warnings (image_metadata_step meta r) = warnings r @
     (case meta of Fulfilled m \<Rightarrow> meta_warnings m | Rejected \<Rightarrow> [])"
  by (auto simp: image_metadata_step_def Let_def push_simps split: settled.splits)

lemma warnings_image_pixel_step:
  "warnings (image_pixel_step px r) = warnings r @ h_warnings px"
  by (auto simp: image_pixel_step_def Let_def push_simps)

lemma warnings_image_analyze_settled:
  "warnings (image_analyze_settled img ai df meta) =
     dedupe
      ((case ai of
          Fulfilled (Some realScore) \<Rightarrow>
            if js_lt realScore (Fin 40) then [''Image shows strong indicators of AI generation''] else []
        | _ \<Rightarrow> []) @
       (case df of
          Fulfilled (Some realScore) \<Rightarrow>
            if js_lt realScore (Fin 40) then [''Deepfake indicators detected in the image''] else []
        | _ \<Rightarrow> []) @
       (case meta of Fulfilled m \<Rightarrow> meta_warnings m | Rejected \<Rightarrow> []) @
       h_warnings (analyzePixelPatterns img))"
  by (simp add: image_analyze_settled_def Let_def warnings_image_ai_step warnings_image_deepfake_step
      warnings_image_metadata_step warnings_image_pixel_step)


lemma TextAnalyzer_analyze_settled:
  "TextAnalyzer_analyze test srv alt text apiKey = Some r \<Longrightarrow>
     \<exists>ai. r = text_analyze_settled text (Fulfilled ai) (Fulfilled (analyzeLinguistics text))
                (Fulfilled (analyzePatterns test text))"
  by (auto simp: TextAnalyzer_analyze_def split: option.splits)

lemma ImageAnalyzer_analyze_settled:
  "ImageAnalyzer_analyze srv_ai srv_df img apiKey = Some r \<Longrightarrow>
     \<exists>ai df. r = image_analyze_settled img (Fulfilled ai) (Fulfilled df) (Fulfilled (analyzeMetadata img))"
  by (fastforce simp: ImageAnalyzer_analyze_def split: option.splits)

lemma text_breakdown_nonempty: "breakdown (text_analyze_settled text ai ling pat) \<noteq> []"
  by (simp add: breakdown_text_analyze_settled)

lemma image_breakdown_nonempty: "breakdown (image_analyze_settled img ai df meta) \<noteq> []"
  by (simp add: breakdown_image_analyze_settled)

lemma text_overall_rounded_mean:
  "overallScore (text_analyze_settled text ai ling pat)
     = rounded_mean (map score (breakdown (text_analyze_settled text ai ling pat)))"
  by (simp only: overallScore_text_analyze_settled overall_rounded_mean [OF text_breakdown_nonempty])

lemma image_overall_rounded_mean:
  "authenticityScore (image_analyze_settled img ai df meta)
     = rounded_mean (map score (breakdown (image_analyze_settled img ai df meta)))"
  by (simp only: authenticityScore_image_analyze_settled overall_rounded_mean [OF image_breakdown_nonempty])

subsection \<open>Sample runs\<close>

lemmas str_defs = split_sentences_def split_ws_def is_terminator_def is_space_def code_unit_def
  trim_def toLowerCase_def lower_char_def is_az_def is_word_char_def match_count_def

lemmas stat_defs = variance_def sentenceLengths_def sentences_of_def avgLen_def reduce_sum_def
  of_count_def

lemma detectAIContent_network_error:
  "detectAIContent (\<lambda>n. NetworkError) alt text apiKey 0 [] =
     Some ([Fetch (text_request ''openai-community/roberta-base-openai-detector'' text apiKey)], None)"
  by (subst detectAIContent.simps) (simp add: Let_def)

lemma detect_image_network_error:
  "detect_image m matches (\<lambda>n. NetworkError) binaryData apiKey 0 [] =
     Some ([Fetch (image_request m binaryData apiKey)], None)"
  by (subst detect_image.simps) (simp add: Let_def)

lemma sample_fallback:
  "fallbackAIDetection ''Hello world'' =
     \<lparr>h_score = 60, h_warnings = [''Very uniform sentence lengths detected (common in AI text)'']\<rparr>"
  by (simp add: fallbackAIDetection_def Let_def penalise_def clamp_def str_defs stat_defs
      formalCount_def sensationalCount_def absoluteCount_def fallback_ttr_def formalPhrases_def
      sensationalWords_def absoluteWords_def)

lemma sample_linguistics:
  "analyzeLinguistics ''Hello world'' =
     \<lparr>ling_burstiness = ''Low'', diversityScore = Fin 48, variationScore = Fin 0,
      vocabularyScore = Fin 95,
      ling_warnings = [''Low sentence length variation (typical of AI-generated text)'',
                       ''Unusually consistent writing rhythm'']\<rparr>"
  by (simp add: analyzeLinguistics_def Let_def stdDev_def ling_ttr_def cleanWords_def push_if_def
      str_defs stat_defs)

lemma sample_patterns:
  "analyzePatterns (\<lambda>r t. False) ''Hello world'' =
     \<lparr>naturalScore = 70, credibilityScore = 70, pat_warnings = []\<rparr>"
  by (simp add: analyzePatterns_def Let_def aiPatterns_def misinfoPatterns_def natural_rule_def
      credibility_rule_def clamp_def)

lemma sample_text_run:
  "TextAnalyzer_analyze (\<lambda>r t. False) (\<lambda>n. NetworkError) NetworkError ''Hello world'' ''key'' =
     Some (text_analyze_settled ''Hello world'' (Fulfilled None)
             (Fulfilled (analyzeLinguistics ''Hello world''))
             (Fulfilled (analyzePatterns (\<lambda>r t. False) ''Hello world'')))"
  by (simp add: TextAnalyzer_analyze_def detectAIContent_network_error)

lemma sample_text_breakdown:
  "breakdown (text_analyze_settled ''Hello world'' (Fulfilled None)
             (Fulfilled (analyzeLinguistics ''Hello world''))
             (Fulfilled (analyzePatterns (\<lambda>r t. False) ''Hello world''))) =
     [\<lparr>name = ''AI Detection (Heuristic Fallback)'', score = Fin 60\<rparr>,
      \<lparr>name = ''Linguistic Diversity'', score = Fin 48\<rparr>,
      \<lparr>name = ''Sentence Variation'', score = Fin 0\<rparr>,
      \<lparr>name = ''Vocabulary Richness'', score = Fin 95\<rparr>,
      \<lparr>name = ''Writing Pattern Naturalness'', score = Fin 70\<rparr>,
      \<lparr>name = ''Content Credibility Signals'', score = Fin 70\<rparr>]"
  by (simp add: breakdown_text_analyze_settled sample_fallback sample_linguistics sample_patterns
      of_integer_def)

lemma sample_text_overall:
  "overallScore (text_analyze_settled ''Hello world'' (Fulfilled None)
             (Fulfilled (analyzeLinguistics ''Hello world''))
             (Fulfilled (analyzePatterns (\<lambda>r t. False) ''Hello world''))) = Fin 57"
  by (simp add: overallScore_text_analyze_settled sample_text_breakdown overall_def Let_def
      of_count_def)

lemma sample_metadata:
  "analyzeMetadata sample_image =
     \<lparr>integrityScore = 60, metadataScore = 65,
      meta_warnings = [''Very small file size may indicate heavy compression or modification'']\<rparr>"
  by (simp add: analyzeMetadata_def sample_image_def Let_def clamp_def)

lemma sample_pixels: "analyzePixelPatterns sample_image = \<lparr>h_score = 60, h_warnings = []\<rparr>"
  by (simp add: analyzePixelPatterns_def sample_image_def Let_def clamp_def)

lemma sample_image_run:
  "ImageAnalyzer_analyze (\<lambda>n. NetworkError) (\<lambda>n. NetworkError) sample_image ''key'' =
     Some (image_analyze_settled sample_image (Fulfilled None) (Fulfilled None)
             (Fulfilled (analyzeMetadata sample_image)))"
  by (simp add: ImageAnalyzer_analyze_def detectAIGenerated_def detectDeepfake_def
      detect_image_network_error)

lemma sample_image_breakdown:
  "breakdown (image_analyze_settled sample_image (Fulfilled None) (Fulfilled None)
             (Fulfilled (analyzeMetadata sample_image))) =
     [\<lparr>name = ''AI Detection (Heuristic)'', score = Fin 60\<rparr>,
      \<lparr>name = ''Deepfake Detection'', score = Fin 70\<rparr>,
      \<lparr>name = ''File Integrity'', score = Fin 60\<rparr>,
      \<lparr>name = ''Metadata Consistency'', score = Fin 65\<rparr>,
      \<lparr>name = ''Pixel Pattern Analysis'', score = Fin 60\<rparr>]"
  by (simp add: breakdown_image_analyze_settled sample_metadata sample_pixels of_integer_def)

lemma sample_image_overall:
  "authenticityScore (image_analyze_settled sample_image (Fulfilled None) (Fulfilled None)
             (Fulfilled (analyzeMetadata sample_image))) = Fin 63"
  by (simp add: authenticityScore_image_analyze_settled sample_image_breakdown overall_def Let_def
      of_count_def)

section \<open>Claims\<close>

text \<open>
  C1. Whenever an analysis succeeds, its overall score is the rounded arithmetic mean, not
  weighted, of the scores of exactly the breakdown entries of the report, however many
  entries the sources contributed, in the text pipeline and in the image pipeline.
\<close>

theorem overall_score_is_rounded_mean:
  "overallScore (text_analyze_settled text ai ling pat)
     = rounded_mean (map score (breakdown (text_analyze_settled text ai ling pat)))
   \<and> authenticityScore (image_analyze_settled img ai' df meta)
     = rounded_mean (map score (breakdown (image_analyze_settled img ai' df meta)))
   \<and> (\<forall>r. TextAnalyzer_analyze test srv alt text apiKey = Some r
          \<longrightarrow> overallScore r = rounded_mean (map score (breakdown r)))
   \<and> (\<forall>r. ImageAnalyzer_analyze srv_ai srv_df img apiKey = Some r
          \<longrightarrow> authenticityScore r = rounded_mean (map score (breakdown r)))"
proof (intro conjI allI impI)
  show "overallScore (text_analyze_settled text ai ling pat)
     = rounded_mean (map score (breakdown (text_analyze_settled text ai ling pat)))"
    by (rule text_overall_rounded_mean)
  show "authenticityScore (image_analyze_settled img ai' df meta)
     = rounded_mean (map score (breakdown (image_analyze_settled img ai' df meta)))"
    by (rule image_overall_rounded_mean)
next
  fix r assume "TextAnalyzer_analyze test srv alt text apiKey = Some r"
  then obtain v where "r = text_analyze_settled text (Fulfilled v) (Fulfilled (analyzeLinguistics text))
                (Fulfilled (analyzePatterns test text))"
    using TextAnalyzer_analyze_settled by blast
  then show "overallScore r = rounded_mean (map score (breakdown r))"
    by (simp only: text_overall_rounded_mean)
next
  fix r assume "ImageAnalyzer_analyze srv_ai srv_df img apiKey = Some r"
  then obtain v w where "r = image_analyze_settled img (Fulfilled v) (Fulfilled w) (Fulfilled (analyzeMetadata img))"
    using ImageAnalyzer_analyze_settled by blast
  then show "authenticityScore r = rounded_mean (map score (breakdown r))"
    by (simp only: image_overall_rounded_mean)
qed

theorem overall_score_is_rounded_mean_witness:
  "rounded_mean [Fin 60, Fin 48, Fin 0, Fin 95, Fin 70, Fin 70] = Fin 57
   \<and> rounded_mean [Fin 60, Fin 70, Fin 60, Fin 65, Fin 60] = Fin 63
   \<and> (\<exists>r. TextAnalyzer_analyze (\<lambda>r t. False) (\<lambda>n. NetworkError) NetworkError ''Hello world'' ''key'' = Some r
          \<and> overallScore r = rounded_mean (map score (breakdown r)))
   \<and> (\<exists>r. ImageAnalyzer_analyze (\<lambda>n. NetworkError) (\<lambda>n. NetworkError) sample_image ''key'' = Some r
          \<and> authenticityScore r = rounded_mean (map score (breakdown r)))"
  using overall_score_is_rounded_mean [of "''Hello world''" "Fulfilled None"
      "Fulfilled (analyzeLinguistics ''Hello world'')"
      "Fulfilled (analyzePatterns (\<lambda>r t. False) ''Hello world'')"
      sample_image "Fulfilled None" "Fulfilled None" "Fulfilled (analyzeMetadata sample_image)"
      "\<lambda>r t. False" "\<lambda>n. NetworkError" NetworkError "''key''"
      "\<lambda>n. NetworkError" "\<lambda>n. NetworkError"]
  by (simp add: sample_text_run sample_image_run sample_text_overall sample_image_overall
      sample_text_breakdown sample_image_breakdown)

text \<open>
  C5. Whenever an analysis succeeds, in the text pipeline or the image pipeline, the breakdown
  is not empty: when the remote detection gives no result, the entry of the fallback heuristic
  is pushed in its place. The overall score is therefore a mean over at least one term, and
  its divisor is never zero.
\<close>

theorem breakdown_never_empty:
  "breakdown (text_analyze_settled text ai ling pat) \<noteq> []
   \<and> breakdown (image_analyze_settled img ai' df meta) \<noteq> []
   \<and> ((\<forall>s. ai \<noteq> Fulfilled (Some s)) \<longrightarrow>
        hd (breakdown (text_analyze_settled text ai ling pat))
          = \<lparr>name = ''AI Detection (Heuristic Fallback)'',
             score = of_integer (h_score (fallbackAIDetection text))\<rparr>)
   \<and> ((\<forall>s. ai' \<noteq> Fulfilled (Some s)) \<longrightarrow>
        hd (breakdown (image_analyze_settled img ai' df meta))
          = \<lparr>name = ''AI Detection (Heuristic)'', score = of_integer (h_score fallbackImageAnalysis)\<rparr>)
   \<and> (\<forall>r. TextAnalyzer_analyze test srv alt text apiKey = Some r \<longrightarrow> 0 < length (breakdown r))
   \<and> (\<forall>r. ImageAnalyzer_analyze srv_ai srv_df img apiKey = Some r \<longrightarrow> 0 < length (breakdown r))"
proof (intro conjI allI impI)
  show "breakdown (text_analyze_settled text ai ling pat) \<noteq> []"
    by (rule text_breakdown_nonempty)
  show "breakdown (image_analyze_settled img ai' df meta) \<noteq> []"
    by (rule image_breakdown_nonempty)
next
  assume "\<forall>s. ai \<noteq> Fulfilled (Some s)"
  then show "hd (breakdown (text_analyze_settled text ai ling pat))
          = \<lparr>name = ''AI Detection (Heuristic Fallback)'',
             score = of_integer (h_score (fallbackAIDetection text))\<rparr>"
    by (simp add: breakdown_text_analyze_settled split: settled.splits option.splits)
next
  assume "\<forall>s. ai' \<noteq> Fulfilled (Some s)"
  then show "hd (breakdown (image_analyze_settled img ai' df meta))
          = \<lparr>name = ''AI Detection (Heuristic)'', score = of_integer (h_score fallbackImageAnalysis)\<rparr>"
    by (simp add: breakdown_image_analyze_settled fallbackImageAnalysis_def of_integer_def
        split: settled.splits option.splits)
next
  fix r assume "TextAnalyzer_analyze test srv alt text apiKey = Some r"
  then obtain v where "r = text_analyze_settled text (Fulfilled v) (Fulfilled (analyzeLinguistics text))
                (Fulfilled (analyzePatterns test text))"
    using TextAnalyzer_analyze_settled by blast
  then show "0 < length (breakdown r)"
    using text_breakdown_nonempty by simp
next
  fix r assume "ImageAnalyzer_analyze srv_ai srv_df img apiKey = Some r"
  then obtain v w where "r = image_analyze_settled img (Fulfilled v) (Fulfilled w) (Fulfilled (analyzeMetadata img))"
    using ImageAnalyzer_analyze_settled by blast
  then show "0 < length (breakdown r)"
    using image_breakdown_nonempty by simp
qed

theorem breakdown_never_empty_witness:
  "hd (breakdown (text_analyze_settled ''Hello world'' (Fulfilled None) Rejected Rejected))
     = \<lparr>name = ''AI Detection (Heuristic Fallback)'', score = Fin 60\<rparr>
   \<and> hd (breakdown (image_analyze_settled sample_image Rejected (Fulfilled None) Rejected))
     = \<lparr>name = ''AI Detection (Heuristic)'', score = Fin 60\<rparr>
   \<and> (\<exists>r. TextAnalyzer_analyze (\<lambda>r t. False) (\<lambda>n. NetworkError) NetworkError ''Hello world'' ''key'' = Some r
          \<and> 0 < length (breakdown r))
   \<and> (\<exists>r. ImageAnalyzer_analyze (\<lambda>n. NetworkError) (\<lambda>n. NetworkError) sample_image ''key'' = Some r
          \<and> 0 < length (breakdown r))"
  using breakdown_never_empty [of "''Hello world''" "Fulfilled None" Rejected Rejected
      sample_image Rejected "Fulfilled None" Rejected
      "\<lambda>r t. False" "\<lambda>n. NetworkError" NetworkError "''key''"
      "\<lambda>n. NetworkError" "\<lambda>n. NetworkError"]
  by (simp add: sample_text_run sample_image_run sample_fallback fallbackImageAnalysis_def
      of_integer_def)

text \<open>
  C8. The warnings of a report are the warnings of its sources, merged in the order of the
  sources, with every repetition of a string removed: no two warnings of the report are equal,
  also when two sources emit the same text, and each warning stands where it first appeared.
\<close>

theorem warnings_deduplicated:
  "warnings (text_analyze_settled text ai ling pat) =
     first_occurrences
      ((case ai of
          Fulfilled (Some humanScore) \<Rightarrow>
            if js_lt humanScore (Fin 40)
            then [''AI detection model indicates high probability of machine-generated content'']
            else []
        | _ \<Rightarrow> h_warnings (fallbackAIDetection text)) @
       (case ling of Fulfilled l \<Rightarrow> ling_warnings l | Rejected \<Rightarrow> []) @
       (case pat of Fulfilled p \<Rightarrow> pat_warnings p | Rejected \<Rightarrow> []))
   \<and> distinct (warnings (text_analyze_settled text ai ling pat))
   \<and> warnings (image_analyze_settled img ai' df meta) =
     first_occurrences
      ((case ai' of
          Fulfilled (Some realScore) \<Rightarrow>
            if js_lt realScore (Fin 40) then [''Image shows strong indicators of AI generation''] else []
        | _ \<Rightarrow> []) @
       (case df of
          Fulfilled (Some realScore) \<Rightarrow>
            if js_lt realScore (Fin 40) then [''Deepfake indicators detected in the image''] else []
        | _ \<Rightarrow> []) @
       (case meta of Fulfilled m \<Rightarrow> meta_warnings m | Rejected \<Rightarrow> []) @
       h_warnings (analyzePixelPatterns img))
   \<and> distinct (warnings (image_analyze_settled img ai' df meta))
   \<and> (\<forall>r. TextAnalyzer_analyze test srv alt text apiKey = Some r \<longrightarrow> distinct (warnings r))
   \<and> (\<forall>r. ImageAnalyzer_analyze srv_ai srv_df img apiKey = Some r \<longrightarrow> distinct (warnings r))"
proof (intro conjI allI impI)
  show "warnings (text_analyze_settled text ai ling pat) =
     first_occurrences
      ((case ai of
          Fulfilled (Some humanScore) \<Rightarrow>
            if js_lt humanScore (Fin 40)
            then [''AI detection model indicates high probability of machine-generated content'']
            else []
        | _ \<Rightarrow> h_warnings (fallbackAIDetection text)) @
       (case ling of Fulfilled l \<Rightarrow> ling_warnings l | Rejected \<Rightarrow> []) @
       (case pat of Fulfilled p \<Rightarrow> pat_warnings p | Rejected \<Rightarrow> []))"
    by (simp only: warnings_text_analyze_settled dedupe_first_occurrences)
  show "distinct (warnings (text_analyze_settled text ai ling pat))"
    by (simp only: warnings_text_analyze_settled dedupe_first_occurrences distinct_first_occurrences)
  show "warnings (image_analyze_settled img ai' df meta) =
     first_occurrences
      ((case ai' of
          Fulfilled (Some realScore) \<Rightarrow>
            if js_lt realScore (Fin 40) then [''Image shows strong indicators of AI generation''] else []
        | _ \<Rightarrow> []) @
       (case df of
          Fulfilled (Some realScore) \<Rightarrow>
            if js_lt realScore (Fin 40) then [''Deepfake indicators detected in the image''] else []
        | _ \<Rightarrow> []) @
       (case meta of Fulfilled m \<Rightarrow> meta_warnings m | Rejected \<Rightarrow> []) @
       h_warnings (analyzePixelPatterns img))"
    by (simp only: warnings_image_analyze_settled dedupe_first_occurrences)
  show "distinct (warnings (image_analyze_settled img ai' df meta))"
    by (simp only: warnings_image_analyze_settled dedupe_first_occurrences distinct_first_occurrences)
next
  fix r assume "TextAnalyzer_analyze test srv alt text apiKey = Some r"
  then obtain v where "r = text_analyze_settled text (Fulfilled v) (Fulfilled (analyzeLinguistics text))
                (Fulfilled (analyzePatterns test text))"
    using TextAnalyzer_analyze_settled by blast
  then show "distinct (warnings r)"
    by (simp only: warnings_text_analyze_settled dedupe_first_occurrences distinct_first_occurrences)
next
  fix r assume "ImageAnalyzer_analyze srv_ai srv_df img apiKey = Some r"
  then obtain v w where "r = image_analyze_settled img (Fulfilled v) (Fulfilled w) (Fulfilled (analyzeMetadata img))"
    using ImageAnalyzer_analyze_settled by blast
  then show "distinct (warnings r)"
    by (simp only: warnings_image_analyze_settled dedupe_first_occurrences distinct_first_occurrences)
qed

theorem warnings_deduplicated_witness:
  "warnings (text_analyze_settled ''Hello world'' (Fulfilled (Some (Fin 90)))
      (Fulfilled \<lparr>ling_burstiness = ''Low'', diversityScore = Fin 50, variationScore = Fin 50,
                  vocabularyScore = Fin 50, ling_warnings = [''a'', ''b'', ''a'']\<rparr>)
      (Fulfilled \<lparr>naturalScore = 70, credibilityScore = 70, pat_warnings = [''c'', ''b'', ''d'']\<rparr>))
     = [''a'', ''b'', ''c'', ''d'']
   \<and> (\<exists>r. TextAnalyzer_analyze (\<lambda>r t. False) (\<lambda>n. NetworkError) NetworkError ''Hello world'' ''key'' = Some r
          \<and> distinct (warnings r))
   \<and> (\<exists>r. ImageAnalyzer_analyze (\<lambda>n. NetworkError) (\<lambda>n. NetworkError) sample_image ''key'' = Some r
          \<and> distinct (warnings r))"
  using warnings_deduplicated [of "''Hello world''" "Fulfilled (Some (Fin 90))"
      "Fulfilled \<lparr>ling_burstiness = ''Low'', diversityScore = Fin 50, variationScore = Fin 50,
                  vocabularyScore = Fin 50, ling_warnings = [''a'', ''b'', ''a'']\<rparr>"
      "Fulfilled \<lparr>naturalScore = 70, credibilityScore = 70, pat_warnings = [''c'', ''b'', ''d'']\<rparr>"
      sample_image Rejected Rejected Rejected
      "\<lambda>r t. False" "\<lambda>n. NetworkError" NetworkError "''key''"
      "\<lambda>n. NetworkError" "\<lambda>n. NetworkError"]
  by (simp add: sample_text_run sample_image_run)

lemma overall_integer_or_NaN: "overall bs = NaN \<or> (\<exists>k. overall bs = of_integer k)"
proof (cases "js_div (foldl (\<lambda>sum s. js_add sum s) (Fin 0) (map score bs)) (of_count (length (map score bs)))")
  case (Fin a)
  then show ?thesis by (auto simp: overall_def Let_def of_integer_def)
next
  case NaN
  then show ?thesis by (simp add: overall_def Let_def)
qed

lemma banding:
  assumes "s = NaN \<or> (\<exists>k. s = of_integer k)"
  shows "s = NaN \<and> (if js_gt s (Fin 70) then authentic
                     else if js_gt s (Fin 40) then suspicious else fake) = fake
         \<or> (\<exists>k. s = of_integer k
                \<and> (if js_gt s (Fin 70) then authentic
                    else if js_gt s (Fin 40) then suspicious else fake) = verdict_band k)"
  using assms
proof
  assume "s = NaN"
  then show ?thesis by simp
next
  assume "\<exists>k. s = of_integer k"
  then obtain k where k: "s = of_integer k" ..
  have "(if js_gt s (Fin 70) then authentic
         else if js_gt s (Fin 40) then suspicious else fake) = verdict_band k"
    by (auto simp: k verdict_band_def of_integer_def)
  with k show ?thesis by blast
qed

text \<open>
  C4. Both pipelines band the overall score of a report alike and totally: a score above 70 is
  authentic, a score from 41 to 70 is suspicious, a score of at most 40 is fake. The overall
  score is a whole number or not a number at all; the latter is shown as fake.
\<close>

theorem verdict_banding:
  "(overallScore (text_analyze_settled text ai ling pat) = NaN
      \<and> text_verdict (text_analyze_settled text ai ling pat) = fake
    \<or> (\<exists>k. overallScore (text_analyze_settled text ai ling pat) = of_integer k
          \<and> text_verdict (text_analyze_settled text ai ling pat) = verdict_band k))
   \<and> (authenticityScore (image_analyze_settled img ai' df meta) = NaN
      \<and> image_verdict (image_analyze_settled img ai' df meta) = fake
    \<or> (\<exists>k. authenticityScore (image_analyze_settled img ai' df meta) = of_integer k
          \<and> image_verdict (image_analyze_settled img ai' df meta) = verdict_band k))
   \<and> (verdict_band k = authentic \<longleftrightarrow> 70 < k)
   \<and> (verdict_band k = suspicious \<longleftrightarrow> 41 \<le> k \<and> k \<le> 70)
   \<and> (verdict_band k = fake \<longleftrightarrow> k \<le> 40)"
proof (intro conjI)
  show "overallScore (text_analyze_settled text ai ling pat) = NaN
      \<and> text_verdict (text_analyze_settled text ai ling pat) = fake
    \<or> (\<exists>k. overallScore (text_analyze_settled text ai ling pat) = of_integer k
          \<and> text_verdict (text_analyze_settled text ai ling pat) = verdict_band k)"
    unfolding text_verdict_def overallScore_text_analyze_settled
    by (rule banding [OF overall_integer_or_NaN])
  show "authenticityScore (image_analyze_settled img ai' df meta) = NaN
      \<and> image_verdict (image_analyze_settled img ai' df meta) = fake
    \<or> (\<exists>k. authenticityScore (image_analyze_settled img ai' df meta) = of_integer k
          \<and> image_verdict (image_analyze_settled img ai' df meta) = verdict_band k)"
    unfolding image_verdict_def authenticityScore_image_analyze_settled
    by (rule banding [OF overall_integer_or_NaN])
  show "verdict_band k = authentic \<longleftrightarrow> 70 < k" by (simp add: verdict_band_def)
  show "verdict_band k = suspicious \<longleftrightarrow> 41 \<le> k \<and> k \<le> 70" by (simp add: verdict_band_def)
  show "verdict_band k = fake \<longleftrightarrow> k \<le> 40" by (auto simp: verdict_band_def)
qed


theorem verdict_banding_witness:
  "text_verdict (text_analyze_settled ''Hello world'' (Fulfilled None)
             (Fulfilled (analyzeLinguistics ''Hello world''))
             (Fulfilled (analyzePatterns (\<lambda>r t. False) ''Hello world''))) = suspicious
   \<and> image_verdict (image_analyze_settled sample_image (Fulfilled None) (Fulfilled None)
             (Fulfilled (analyzeMetadata sample_image))) = suspicious
   \<and> verdict_band 71 = authentic \<and> verdict_band 70 = suspicious \<and> verdict_band 41 = suspicious
   \<and> verdict_band 40 = fake"
  using verdict_banding [of "''Hello world''" "Fulfilled None"
      "Fulfilled (analyzeLinguistics ''Hello world'')"
      "Fulfilled (analyzePatterns (\<lambda>r t. False) ''Hello world'')"
      sample_image "Fulfilled None" "Fulfilled None" "Fulfilled (analyzeMetadata sample_image)" 71]
    verdict_banding [of "''Hello world''" "Fulfilled None"
      "Fulfilled (analyzeLinguistics ''Hello world'')"
      "Fulfilled (analyzePatterns (\<lambda>r t. False) ''Hello world'')"
      sample_image "Fulfilled None" "Fulfilled None" "Fulfilled (analyzeMetadata sample_image)" 57]
    verdict_banding [of "''Hello world''" "Fulfilled None"
      "Fulfilled (analyzeLinguistics ''Hello world'')"
      "Fulfilled (analyzePatterns (\<lambda>r t. False) ''Hello world'')"
      sample_image "Fulfilled None" "Fulfilled None" "Fulfilled (analyzeMetadata sample_image)" 63]
  by (simp add: sample_text_overall sample_image_overall of_integer_def verdict_band_def)

lemma sample_marked_triggered: "triggered sample_marked = conditions"
  by code_simp

lemma sample_triggered: "triggered ''Hello world'' = [UniformSentences]"
  by code_simp

lemma fallback_score_formula:
  "h_score (fallbackAIDetection text) = clamp 5 95 (75 - sum_list (map penalty (triggered text)))"
  by (simp add: fallbackAIDetection_def Let_def penalise_def triggered_def conditions_def)

lemma penalties_bound: "sum_list (map penalty (triggered text)) \<le> 58"
  by (simp add: triggered_def conditions_def)

lemma penalties_nonneg: "0 \<le> sum_list (map penalty (triggered text))"
  by (simp add: triggered_def conditions_def)

lemma fallback_score_unclamped:
  "h_score (fallbackAIDetection text) = 75 - sum_list (map penalty (triggered text))"
  using penalties_bound [of "text"] penalties_nonneg [of "text"]
  by (simp add: fallback_score_formula clamp_def)

lemma distinct_triggered: "distinct (triggered text)"
  by (simp add: triggered_def conditions_def)

lemma penalties_sum: "sum_list (map penalty (triggered text)) = sum penalty (set (triggered text))"
  by (rule sum_list_distinct_conv_sum_set [OF distinct_triggered])

lemma penalty_pos: "0 < penalty c"
  by (cases c) simp_all

lemma penalties_mono:
  assumes "set (triggered t1) \<subseteq> set (triggered t2)"
  shows "sum_list (map penalty (triggered t1)) \<le> sum_list (map penalty (triggered t2))"
  unfolding penalties_sum
  by (rule sum_mono2) (use assms penalty_pos in \<open>auto intro: less_imp_le\<close>)

lemma penalties_strict_mono:
  assumes "set (triggered t1) \<subset> set (triggered t2)"
  shows "sum_list (map penalty (triggered t1)) < sum_list (map penalty (triggered t2))"
proof -
  from assms obtain c where c: "c \<in> set (triggered t2) - set (triggered t1)" by blast
  have sub: "set (triggered t1) \<subseteq> set (triggered t2)" using assms by blast
  show ?thesis
    unfolding penalties_sum
    by (rule sum_strict_mono2 [OF _ sub c penalty_pos]) (simp_all add: less_imp_le penalty_pos)
qed


text \<open>
  C7. The heuristic text fallback starts from 75, subtracts a fixed penalty for each condition
  that a text triggers (variance of the sentence lengths below 15: 15; more than 3 formal
  phrases: 10; type-token ratio below 0.4: 10; more than 2 sensationalist markers: 15; more
  than 5 absolute words: 8) and clamps the result to the range from 5 to 95. The score
  decreases as more conditions are triggered: a text that triggers all the conditions of
  another one scores no higher, and strictly lower when it triggers more; a text triggering all
  five scores 17 and one triggering only the variance condition scores 60.
\<close>

theorem fallback_score_monotone:
  "h_score (fallbackAIDetection text) = clamp 5 95 (75 - sum_list (map penalty (triggered text)))
   \<and> 5 \<le> h_score (fallbackAIDetection text) \<and> h_score (fallbackAIDetection text) \<le> 95
   \<and> (set (triggered t1) \<subseteq> set (triggered t2)
        \<longrightarrow> h_score (fallbackAIDetection t2) \<le> h_score (fallbackAIDetection t1))
   \<and> (set (triggered t1) \<subset> set (triggered t2)
        \<longrightarrow> h_score (fallbackAIDetection t2) < h_score (fallbackAIDetection t1))
   \<and> (triggered t2 = conditions \<and> triggered t1 = [UniformSentences]
        \<longrightarrow> h_score (fallbackAIDetection t2) = 17 \<and> h_score (fallbackAIDetection t1) = 60)"
proof (intro conjI impI)
  show "h_score (fallbackAIDetection text) = clamp 5 95 (75 - sum_list (map penalty (triggered text)))"
    by (rule fallback_score_formula)
  show "5 \<le> h_score (fallbackAIDetection text)"
    by (simp add: fallback_score_formula clamp_def)
  show "h_score (fallbackAIDetection text) \<le> 95"
    by (simp add: fallback_score_formula clamp_def)
next
  assume "set (triggered t1) \<subseteq> set (triggered t2)"
  then show "h_score (fallbackAIDetection t2) \<le> h_score (fallbackAIDetection t1)"
    using penalties_mono [of t1 t2] by (simp add: fallback_score_unclamped)
next
  assume "set (triggered t1) \<subset> set (triggered t2)"
  then show "h_score (fallbackAIDetection t2) < h_score (fallbackAIDetection t1)"
    using penalties_strict_mono [of t1 t2] by (simp add: fallback_score_unclamped)
next
  assume a: "triggered t2 = conditions \<and> triggered t1 = [UniformSentences]"
  then show "h_score (fallbackAIDetection t2) = 17"
    by (simp add: fallback_score_unclamped conditions_def)
  from a show "h_score (fallbackAIDetection t1) = 60"
    by (simp add: fallback_score_unclamped)
qed

theorem fallback_score_monotone_witness:
  "set (triggered ''Hello world'') \<subset> set (triggered sample_marked)
   \<and> triggered sample_marked = conditions \<and> triggered ''Hello world'' = [UniformSentences]
   \<and> h_score (fallbackAIDetection sample_marked) = 17
   \<and> h_score (fallbackAIDetection ''Hello world'') = 60
   \<and> h_score (fallbackAIDetection sample_marked) < h_score (fallbackAIDetection ''Hello world'')"
  using fallback_score_monotone [of sample_marked "''Hello world''" sample_marked]
  by (auto simp: sample_marked_triggered sample_triggered conditions_def)

lemma scan_strict_no_match:
  "\<forall>it \<in> set its. \<exists>l. item_label it = Some l \<and> \<not> matches (toLowerCase l)
     \<Longrightarrow> scan_strict matches acc its = Some acc"
  by (induction its arbitrary: acc) auto

lemma scan_lenient_no_match:
  "\<forall>it \<in> set its. \<not> matches (case item_label it of None \<Rightarrow> [] | Some l \<Rightarrow> toLowerCase l)
     \<Longrightarrow> scan_lenient matches acc its = acc"
  by (induction its arbitrary: acc) auto

lemma detectAIContent_labels:
  "srv n = Reply True (Labels its) \<or> srv n = Reply True (NestedLabels its) \<Longrightarrow>
   detectAIContent srv alt text apiKey n tr =
     Some (tr @ [Fetch (text_request ''openai-community/roberta-base-openai-detector'' text apiKey)],
           scan_strict primary_label (Fin 50) its)"
  by (subst detectAIContent.simps) (auto simp: Let_def)

lemma detect_image_labels:
  "srv n = Reply True (Labels its) \<Longrightarrow>
   detect_image m matches srv binaryData apiKey n tr =
     Some (tr @ [Fetch (image_request m binaryData apiKey)], Some (scan_lenient matches (Fin 50) its))"
  by (subst detect_image.simps) (auto simp: Let_def)

text \<open>
  As long as every entry of the array carries a label, a successful response in which no
  label is of the expected vocabulary leaves the initial 50 in place in the text detector;
  the image detector reads a missing label as the empty string and needs no such condition.
\<close>

lemma labelled_no_match_scores_50:
  "((srv n = Reply True (Labels its) \<or> srv n = Reply True (NestedLabels its))
      \<and> (\<forall>it \<in> set its. \<exists>l. item_label it = Some l \<and> \<not> primary_label (toLowerCase l))
     \<longrightarrow> detectAIContent srv alt text apiKey n tr =
           Some (tr @ [Fetch (text_request ''openai-community/roberta-base-openai-detector'' text apiKey)],
                 Some (Fin 50)))
   \<and> (srv' n = Reply True (Labels its')
      \<and> (\<forall>it \<in> set its'. \<not> ai_image_label (case item_label it of None \<Rightarrow> [] | Some l \<Rightarrow> toLowerCase l))
     \<longrightarrow> detect_image m ai_image_label srv' binaryData apiKey n tr' =
           Some (tr' @ [Fetch (image_request m binaryData apiKey)], Some (Fin 50)))
   \<and> (srv' 0 = Reply True (Labels its')
      \<and> (\<forall>it \<in> set its'. \<not> ai_image_label (case item_label it of None \<Rightarrow> [] | Some l \<Rightarrow> toLowerCase l))
     \<longrightarrow> detectAIGenerated srv' binaryData apiKey =
           Some ([Fetch (image_request ''umm-maybe/AI-image-detector'' binaryData apiKey)], Some (Fin 50)))"
proof (intro conjI impI)
  assume a: "(srv n = Reply True (Labels its) \<or> srv n = Reply True (NestedLabels its))
      \<and> (\<forall>it \<in> set its. \<exists>l. item_label it = Some l \<and> \<not> primary_label (toLowerCase l))"
  then have "scan_strict primary_label (Fin 50) its = Some (Fin 50)"
    by (intro scan_strict_no_match) simp
  with a show "detectAIContent srv alt text apiKey n tr =
           Some (tr @ [Fetch (text_request ''openai-community/roberta-base-openai-detector'' text apiKey)],
                 Some (Fin 50))"
    using detectAIContent_labels [of srv n its alt "text" apiKey tr] by simp
next
  assume a: "srv' n = Reply True (Labels its')
      \<and> (\<forall>it \<in> set its'. \<not> ai_image_label (case item_label it of None \<Rightarrow> [] | Some l \<Rightarrow> toLowerCase l))"
  then have "scan_lenient ai_image_label (Fin 50) its' = Fin 50"
    by (intro scan_lenient_no_match) simp
  with a show "detect_image m ai_image_label srv' binaryData apiKey n tr' =
           Some (tr' @ [Fetch (image_request m binaryData apiKey)], Some (Fin 50))"
    by (simp add: detect_image_labels)
next
  assume a: "srv' 0 = Reply True (Labels its')
      \<and> (\<forall>it \<in> set its'. \<not> ai_image_label (case item_label it of None \<Rightarrow> [] | Some l \<Rightarrow> toLowerCase l))"
  then have "scan_lenient ai_image_label (Fin 50) its' = Fin 50"
    by (intro scan_lenient_no_match) simp
  with a show "detectAIGenerated srv' binaryData apiKey =
           Some ([Fetch (image_request ''umm-maybe/AI-image-detector'' binaryData apiKey)], Some (Fin 50))"
    by (simp add: detectAIGenerated_def detect_image_labels)
qed

lemma sample_unknown_lowered:
  "map (\<lambda>it. map_option toLowerCase (item_label it)) sample_unknown_labels
     = [Some ''fake'', Some ''other'']"
  by code_simp

lemma sample_unknown_text:
  "\<forall>it \<in> set sample_unknown_labels. \<exists>l. item_label it = Some l \<and> \<not> primary_label (toLowerCase l)"
  using sample_unknown_lowered
  by (auto simp: sample_unknown_labels_def primary_label_def)

lemma sample_unknown_image:
  "\<forall>it \<in> set sample_unknown_labels.
      \<not> ai_image_label (case item_label it of None \<Rightarrow> [] | Some l \<Rightarrow> toLowerCase l)"
  by code_simp

lemma sample_unknown_scores_50:
  "detectAIContent (\<lambda>n. Reply True (Labels sample_unknown_labels)) NetworkError ''Hello world'' ''key'' 0 [] =
     Some ([Fetch (text_request ''openai-community/roberta-base-openai-detector'' ''Hello world'' ''key'')],
           Some (Fin 50))
   \<and> detectAIGenerated (\<lambda>n. Reply True (Labels sample_unknown_labels)) [137, 80] ''key'' =
     Some ([Fetch (image_request ''umm-maybe/AI-image-detector'' [137, 80] ''key'')], Some (Fin 50))"
  using labelled_no_match_scores_50 [of "\<lambda>n. Reply True (Labels sample_unknown_labels)" 0
      sample_unknown_labels NetworkError "''Hello world''" "''key''" "[]"
      "\<lambda>n. Reply True (Labels sample_unknown_labels)" sample_unknown_labels
      "''umm-maybe/AI-image-detector''" "[137, 80]" "[]"]
    sample_unknown_text sample_unknown_image
  by simp


lemma image_loading_cases:
  "image_loading r \<longleftrightarrow> (\<exists>e. r = Reply False (ErrorBody e) \<and> e \<noteq> [] \<and> str_includes e ''loading'')"
  by (auto simp: image_loading_def split: response.splits body.splits)

lemma text_loading_cases:
  "text_loading r \<longleftrightarrow> (\<exists>e. r = Reply True (ErrorBody e) \<and> e \<noteq> [] \<and> str_includes e ''loading'')"
  by (auto simp: text_loading_def split: response.splits body.splits)

lemma detect_image_retry:
  assumes "image_loading (srv n)"
  shows "detect_image m matches srv binaryData apiKey n tr =
         detect_image m matches srv binaryData apiKey (Suc n)
           (tr @ [Fetch (image_request m binaryData apiKey), Sleep 20000])"
proof -
  from assms obtain e where "srv n = Reply False (ErrorBody e)" "e \<noteq> []" "str_includes e ''loading''"
    unfolding image_loading_cases by blast
  then show ?thesis
    by (subst detect_image.simps) (simp add: Let_def)
qed

lemma detect_image_retries:
  "(\<forall>i<k. image_loading (srv (n + i))) \<Longrightarrow>
   detect_image m matches srv binaryData apiKey n tr =
   detect_image m matches srv binaryData apiKey (n + k)
     (tr @ concat (replicate k [Fetch (image_request m binaryData apiKey), Sleep 20000]))"
proof (induction k arbitrary: n tr)
  case 0
  then show ?case by simp
next
  case (Suc k)
  have first: "image_loading (srv n)"
    using Suc.prems by (metis add.right_neutral zero_less_Suc)
  have rest: "\<forall>i<k. image_loading (srv (Suc n + i))"
    using Suc.prems by (metis Suc_less_eq add_Suc_shift)
  have "detect_image m matches srv binaryData apiKey n tr =
        detect_image m matches srv binaryData apiKey (Suc n) (tr @ [Fetch (image_request m binaryData apiKey), Sleep 20000])"
    using first by (rule detect_image_retry)
  also have "\<dots> = detect_image m matches srv binaryData apiKey (Suc n + k)
        ((tr @ [Fetch (image_request m binaryData apiKey), Sleep 20000])
          @ concat (replicate k [Fetch (image_request m binaryData apiKey), Sleep 20000]))"
    using rest by (rule Suc.IH)
  finally show ?case by simp
qed

lemma detect_image_returns_only_if_loaded:
  assumes "detect_image m matches srv binaryData apiKey n tr = Some y"
  shows "\<exists>i. \<not> image_loading (srv i)"
proof (rule detect_image.raw_induct
    [where P = "\<lambda>m matches srv binaryData apiKey n tr y. \<exists>i. \<not> image_loading (srv i)", OF _ assms],
    goal_cases)
  case (1 f m matches srv binaryData apiKey n tr y)
  show ?case
  proof (cases "image_loading (srv n)")
    case True
    then obtain e where e: "srv n = Reply False (ErrorBody e)" "e \<noteq> []" "str_includes e ''loading''"
      unfolding image_loading_cases by blast
    with 1(2) have "f m matches srv binaryData apiKey (Suc n)
        ((tr @ [Fetch (image_request m binaryData apiKey)]) @ [Sleep 20000]) = Some y"
      by (simp add: Let_def)
    then show ?thesis by (rule 1(1))
  next
    case False
    then show ?thesis by blast
  qed
qed

lemma detect_image_diverges:
  "(\<forall>i. image_loading (srv i)) \<Longrightarrow> detect_image m matches srv binaryData apiKey n tr = None"
  using detect_image_returns_only_if_loaded [of m matches srv binaryData apiKey n tr]
  by (cases "detect_image m matches srv binaryData apiKey n tr") auto

lemma detect_image_hard_failure:
  "srv n = Reply False d \<Longrightarrow> \<not> image_loading (srv n) \<Longrightarrow>
   detect_image m matches srv binaryData apiKey n tr =
     Some (tr @ [Fetch (image_request m binaryData apiKey)], None)"
  by (subst detect_image.simps) (auto simp: Let_def image_loading_def split: body.splits)

lemma detectAIContent_retry:
  assumes "text_loading (srv n)"
  shows "detectAIContent srv alt text apiKey n tr =
         detectAIContent srv alt text apiKey (Suc n)
           (tr @ [Fetch (primary_request text apiKey), Sleep 20000])"
proof -
  from assms obtain e where "srv n = Reply True (ErrorBody e)" "e \<noteq> []" "str_includes e ''loading''"
    unfolding text_loading_cases by blast
  then show ?thesis
    by (subst detectAIContent.simps) (simp add: Let_def primary_request_def)
qed

lemma detectAIContent_retries:
  "(\<forall>i<k. text_loading (srv (n + i))) \<Longrightarrow>
   detectAIContent srv alt text apiKey n tr =
   detectAIContent srv alt text apiKey (n + k)
     (tr @ concat (replicate k [Fetch (primary_request text apiKey), Sleep 20000]))"
proof (induction k arbitrary: n tr)
  case 0
  then show ?case by simp
next
  case (Suc k)
  have first: "text_loading (srv n)"
    using Suc.prems by (metis add.right_neutral zero_less_Suc)
  have rest: "\<forall>i<k. text_loading (srv (Suc n + i))"
    using Suc.prems by (metis Suc_less_eq add_Suc_shift)
  have "detectAIContent srv alt text apiKey n tr =
        detectAIContent srv alt text apiKey (Suc n) (tr @ [Fetch (primary_request text apiKey), Sleep 20000])"
    using first by (rule detectAIContent_retry)
  also have "\<dots> = detectAIContent srv alt text apiKey (Suc n + k)
        ((tr @ [Fetch (primary_request text apiKey), Sleep 20000])
          @ concat (replicate k [Fetch (primary_request text apiKey), Sleep 20000]))"
    using rest by (rule Suc.IH)
  finally show ?case by simp
qed

lemma detectAIContent_returns_only_if_loaded:
  assumes "detectAIContent srv alt text apiKey n tr = Some y"
  shows "\<exists>i. \<not> text_loading (srv i)"
proof (rule detectAIContent.raw_induct
    [where P = "\<lambda>srv alt text apiKey n tr y. \<exists>i. \<not> text_loading (srv i)", OF _ assms],
    goal_cases)
  case (1 f srv alt text' apiKey n tr y)
  show ?case
  proof (cases "text_loading (srv n)")
    case True
    then obtain e where e: "srv n = Reply True (ErrorBody e)" "e \<noteq> []" "str_includes e ''loading''"
      unfolding text_loading_cases by blast
    with 1(2) have "f srv alt text' apiKey (Suc n)
        ((tr @ [Fetch (text_request ''openai-community/roberta-base-openai-detector'' text' apiKey)])
          @ [Sleep 20000]) = Some y"
      by (simp add: Let_def)
    then show ?thesis by (rule 1(1))
  next
    case False
    then show ?thesis by blast
  qed
qed

lemma detectAIContent_diverges:
  "(\<forall>i. text_loading (srv i)) \<Longrightarrow> detectAIContent srv alt text apiKey n tr = None"
  using detectAIContent_returns_only_if_loaded [of srv alt "text" apiKey n tr]
  by (cases "detectAIContent srv alt text apiKey n tr") auto

lemma detectAIContent_not_ok:
  "srv n = Reply False d \<Longrightarrow>
   detectAIContent srv alt text apiKey n tr =
     Some (tr @ [Fetch (primary_request text apiKey), Fetch (alternate_request text apiKey)],
           tryAlternateModel alt)"
  by (subst detectAIContent.simps) (simp add: Let_def primary_request_def alternate_request_def)

lemma detectAIContent_other_error:
  "srv n = Reply True (ErrorBody e) \<Longrightarrow> e \<noteq> [] \<Longrightarrow> \<not> str_includes e ''loading'' \<Longrightarrow>
   detectAIContent srv alt text apiKey n tr = Some (tr @ [Fetch (primary_request text apiKey)], None)"
  by (subst detectAIContent.simps) (simp add: Let_def primary_request_def)

lemma sample_loading_includes: "str_includes ''Model is currently loading'' ''loading''"
  by code_simp

lemma sample_human: "tryAlternateModel (Reply True (Labels [Item (Some ''Human'') (9 / 10)])) = Some (Fin 90)"
  by code_simp


lemma sample_real: "scan_lenient ai_image_label (Fin 50) [Item (Some ''Real'') (9 / 10)] = Fin 90"
  by code_simp

lemma sample_real_text: "scan_strict primary_label (Fin 50) [Item (Some ''Real'') (9 / 10)] = Some (Fin 90)"
  by code_simp

lemma sample_loading_image: "image_loading (Reply False sample_loading)"
  by (simp add: image_loading_def sample_loading_def sample_loading_includes)

lemma sample_loading_text: "text_loading (Reply True sample_loading)"
  by (simp add: text_loading_def sample_loading_def sample_loading_includes)

lemma sample_unauthorized: "\<not> str_includes ''Unauthorized'' ''loading''"
  by code_simp

lemma requests_differ: "alternate_request text apiKey \<noteq> primary_request text apiKey"
  by (simp add: alternate_request_def primary_request_def text_request_def)

text \<open>
  C2 fails for the text detector: on a response without success it never inspects the error
  body. It sends one request to the second model at once, without waiting, and returns what
  that model answers, here a score of 90, whether the error says \<open>loading\<close> or not.
\<close>

theorem text_detector_not_ok_counterexample:
  "detectAIContent (\<lambda>n. Reply False sample_loading)
      (Reply True (Labels [Item (Some ''Human'') (9 / 10)])) ''Hello world'' ''key'' 0 []
     = Some ([Fetch (primary_request ''Hello world'' ''key''),
              Fetch (alternate_request ''Hello world'' ''key'')], Some (Fin 90))
   \<and> Sleep 20000 \<notin> set [Fetch (primary_request ''Hello world'' ''key''),
                          Fetch (alternate_request ''Hello world'' ''key'')]
   \<and> alternate_request ''Hello world'' ''key'' \<noteq> primary_request ''Hello world'' ''key''
   \<and> \<not> image_loading (Reply False (ErrorBody ''Unauthorized''))
   \<and> detectAIContent (\<lambda>n. Reply False (ErrorBody ''Unauthorized''))
      (Reply True (Labels [Item (Some ''Human'') (9 / 10)])) ''Hello world'' ''key'' 0 []
     = Some ([Fetch (primary_request ''Hello world'' ''key''),
              Fetch (alternate_request ''Hello world'' ''key'')], Some (Fin 90))"
  by (simp add: detectAIContent_not_ok sample_human requests_differ image_loading_def
      sample_unauthorized)

text \<open>
  C2, amended. In the image detectors (\<open>detectAIGenerated\<close>, \<open>detectDeepfake\<close>), whenever a
  response without success carries an error string that contains \<open>loading\<close>, the client
  waits 20 seconds and sends the identical request again, without bound while the answer
  stays the same (if it always does, the call never returns); every other response without
  success is a failure of the call. In the text detector \<open>detectAIContent\<close> the same
  wait-and-resend applies to a response with success whose body carries an error string that
  contains \<open>loading\<close>, and any other non-empty error string in such a response is a failure;
  a response without success, whatever its body, is answered by one request to the second
  model, whose result is the result of the call.
\<close>

theorem loading_retry_protocol:
  "((\<forall>i<k. image_loading (srv (n + i))) \<longrightarrow>
      detect_image m matches srv binaryData apiKey n tr =
      detect_image m matches srv binaryData apiKey (n + k)
        (tr @ concat (replicate k [Fetch (image_request m binaryData apiKey), Sleep 20000])))
   \<and> ((\<forall>i. image_loading (srv i)) \<longrightarrow>
      detect_image m matches srv binaryData apiKey n tr = None)
   \<and> (srv n = Reply False d \<and> \<not> image_loading (srv n) \<longrightarrow>
      detect_image m matches srv binaryData apiKey n tr =
        Some (tr @ [Fetch (image_request m binaryData apiKey)], None))
   \<and> ((\<forall>i<k. text_loading (srv' (n + i))) \<longrightarrow>
      detectAIContent srv' alt text apiKey n tr =
      detectAIContent srv' alt text apiKey (n + k)
        (tr @ concat (replicate k [Fetch (primary_request text apiKey), Sleep 20000])))
   \<and> ((\<forall>i. text_loading (srv' i)) \<longrightarrow> detectAIContent srv' alt text apiKey n tr = None)
   \<and> (srv' n = Reply True (ErrorBody e) \<and> e \<noteq> [] \<and> \<not> str_includes e ''loading'' \<longrightarrow>
      detectAIContent srv' alt text apiKey n tr =
        Some (tr @ [Fetch (primary_request text apiKey)], None))
   \<and> (srv' n = Reply False d' \<longrightarrow>
      detectAIContent srv' alt text apiKey n tr =
        Some (tr @ [Fetch (primary_request text apiKey), Fetch (alternate_request text apiKey)],
              tryAlternateModel alt))"
proof (intro conjI impI)
  assume "\<forall>i<k. image_loading (srv (n + i))"
  then show "detect_image m matches srv binaryData apiKey n tr =
      detect_image m matches srv binaryData apiKey (n + k)
        (tr @ concat (replicate k [Fetch (image_request m binaryData apiKey), Sleep 20000]))"
    by (rule detect_image_retries)
next
  assume "\<forall>i. image_loading (srv i)"
  then show "detect_image m matches srv binaryData apiKey n tr = None"
    by (rule detect_image_diverges)
next
  assume "srv n = Reply False d \<and> \<not> image_loading (srv n)"
  then show "detect_image m matches srv binaryData apiKey n tr =
        Some (tr @ [Fetch (image_request m binaryData apiKey)], None)"
    using detect_image_hard_failure by blast
next
  assume "\<forall>i<k. text_loading (srv' (n + i))"
  then show "detectAIContent srv' alt text apiKey n tr =
      detectAIContent srv' alt text apiKey (n + k)
        (tr @ concat (replicate k [Fetch (primary_request text apiKey), Sleep 20000]))"
    by (rule detectAIContent_retries)
next
  assume "\<forall>i. text_loading (srv' i)"
  then show "detectAIContent srv' alt text apiKey n tr = None"
    by (rule detectAIContent_diverges)
next
  assume "srv' n = Reply True (ErrorBody e) \<and> e \<noteq> [] \<and> \<not> str_includes e ''loading''"
  then show "detectAIContent srv' alt text apiKey n tr =
        Some (tr @ [Fetch (primary_request text apiKey)], None)"
    using detectAIContent_other_error by blast
next
  assume "srv' n = Reply False d'"
  then show "detectAIContent srv' alt text apiKey n tr =
        Some (tr @ [Fetch (primary_request text apiKey), Fetch (alternate_request text apiKey)],
              tryAlternateModel alt)"
    by (rule detectAIContent_not_ok)
qed

theorem loading_retry_protocol_witness:
  "detectAIGenerated
      (\<lambda>i. if i < 2 then Reply False sample_loading
            else Reply True (Labels [Item (Some ''Real'') (9 / 10)])) [137, 80] ''key''
     = Some ([Fetch (image_request ''umm-maybe/AI-image-detector'' [137, 80] ''key''), Sleep 20000,
              Fetch (image_request ''umm-maybe/AI-image-detector'' [137, 80] ''key''), Sleep 20000,
              Fetch (image_request ''umm-maybe/AI-image-detector'' [137, 80] ''key'')],
             Some (Fin 90))
   \<and> detectAIGenerated (\<lambda>i. Reply False sample_loading) [137, 80] ''key'' = None
   \<and> detectAIGenerated (\<lambda>i. Reply False (ErrorBody ''Unauthorized'')) [137, 80] ''key''
     = Some ([Fetch (image_request ''umm-maybe/AI-image-detector'' [137, 80] ''key'')], None)
   \<and> detectAIContent
      (\<lambda>i. if i < 2 then Reply True sample_loading
            else Reply True (Labels [Item (Some ''Real'') (9 / 10)])) NetworkError ''Hello world'' ''key'' 0 []
     = Some ([Fetch (primary_request ''Hello world'' ''key''), Sleep 20000,
              Fetch (primary_request ''Hello world'' ''key''), Sleep 20000,
              Fetch (primary_request ''Hello world'' ''key'')],
             Some (Fin 90))
   \<and> detectAIContent (\<lambda>i. Reply True sample_loading) NetworkError ''Hello world'' ''key'' 0 [] = None
   \<and> detectAIContent (\<lambda>i. Reply True (ErrorBody ''Unauthorized'')) NetworkError ''Hello world'' ''key'' 0 []
     = Some ([Fetch (primary_request ''Hello world'' ''key'')], None)
   \<and> detectAIContent (\<lambda>i. Reply False (ErrorBody ''Unauthorized'')) NetworkError ''Hello world'' ''key'' 0 []
     = Some ([Fetch (primary_request ''Hello world'' ''key''),
              Fetch (alternate_request ''Hello world'' ''key'')], None)"
proof -
  let ?img = "\<lambda>i::nat. if i < 2 then Reply False sample_loading
            else Reply True (Labels [Item (Some ''Real'') (9 / 10)])"
  let ?txt = "\<lambda>i::nat. if i < 2 then Reply True sample_loading
            else Reply True (Labels [Item (Some ''Real'') (9 / 10)])"
  let ?m = "''umm-maybe/AI-image-detector''"
  note a = loading_retry_protocol [of 2 ?img 0 ?m ai_image_label "[137, 80]" "''key''" "[]" NotJson
      ?txt NetworkError "''Hello world''" "''Unauthorized''" NotJson]
  note b = loading_retry_protocol [of 0 "\<lambda>i. Reply False sample_loading" 0 ?m ai_image_label
      "[137, 80]" "''key''" "[]" NotJson "\<lambda>i. Reply True sample_loading" NetworkError
      "''Hello world''" "''Unauthorized''" NotJson]
  note c = loading_retry_protocol [of 0 "\<lambda>i. Reply False (ErrorBody ''Unauthorized'')" 0 ?m
      ai_image_label "[137, 80]" "''key''" "[]" "ErrorBody ''Unauthorized''"
      "\<lambda>i. Reply True (ErrorBody ''Unauthorized'')" NetworkError "''Hello world''"
      "''Unauthorized''" NotJson]
  note d = loading_retry_protocol [of 0 "\<lambda>i. Reply False (ErrorBody ''Unauthorized'')" 0 ?m
      ai_image_label "[137, 80]" "''key''" "[]" "ErrorBody ''Unauthorized''"
      "\<lambda>i. Reply False (ErrorBody ''Unauthorized'')" NetworkError "''Hello world''"
      "''Unauthorized''" "ErrorBody ''Unauthorized''"]
  have not_loading: "\<not> image_loading (Reply False (ErrorBody ''Unauthorized''))"
    by (simp add: image_loading_def sample_unauthorized)
  have i1: "\<forall>i<2. image_loading (?img (0 + i))"
    by (simp add: sample_loading_image)
  have t1: "\<forall>i<2. text_loading (?txt (0 + i))"
    by (simp add: sample_loading_text)
  have "detect_image ?m ai_image_label ?img [137, 80] ''key'' 0 [] =
      detect_image ?m ai_image_label ?img [137, 80] ''key'' (0 + 2)
        ([] @ concat (replicate 2 [Fetch (image_request ?m [137, 80] ''key''), Sleep 20000]))"
    using a i1 by blast
  also have "\<dots> = Some ([Fetch (image_request ?m [137, 80] ''key''), Sleep 20000,
              Fetch (image_request ?m [137, 80] ''key''), Sleep 20000,
              Fetch (image_request ?m [137, 80] ''key'')], Some (Fin 90))"
  proof -
    have r: "concat (replicate 2 [Fetch (image_request ?m [137, 80] ''key''), Sleep 20000])
        = [Fetch (image_request ?m [137, 80] ''key''), Sleep 20000,
           Fetch (image_request ?m [137, 80] ''key''), Sleep 20000]"
      by (simp add: numeral_2_eq_2)
    have "?img 2 = Reply True (Labels [Item (Some ''Real'') (9 / 10)])" by simp
    then show ?thesis
      unfolding r by (simp add: detect_image_labels sample_real del: scan_lenient.simps)
  qed
  finally have w1: "detectAIGenerated ?img [137, 80] ''key''
     = Some ([Fetch (image_request ?m [137, 80] ''key''), Sleep 20000,
              Fetch (image_request ?m [137, 80] ''key''), Sleep 20000,
              Fetch (image_request ?m [137, 80] ''key'')], Some (Fin 90))"
    by (simp add: detectAIGenerated_def)
  have w2: "detectAIGenerated (\<lambda>i. Reply False sample_loading) [137, 80] ''key'' = None"
    using b sample_loading_image by (simp add: detectAIGenerated_def)
  have w3: "detectAIGenerated (\<lambda>i. Reply False (ErrorBody ''Unauthorized'')) [137, 80] ''key''
     = Some ([Fetch (image_request ?m [137, 80] ''key'')], None)"
    using c not_loading by (simp add: detectAIGenerated_def)
  have "detectAIContent ?txt NetworkError ''Hello world'' ''key'' 0 [] =
      detectAIContent ?txt NetworkError ''Hello world'' ''key'' (0 + 2)
        ([] @ concat (replicate 2 [Fetch (primary_request ''Hello world'' ''key''), Sleep 20000]))"
    using a t1 by blast
  also have "\<dots> = Some ([Fetch (primary_request ''Hello world'' ''key''), Sleep 20000,
              Fetch (primary_request ''Hello world'' ''key''), Sleep 20000,
              Fetch (primary_request ''Hello world'' ''key'')], Some (Fin 90))"
  proof -
    have r: "concat (replicate 2 [Fetch (primary_request ''Hello world'' ''key''), Sleep 20000])
        = [Fetch (primary_request ''Hello world'' ''key''), Sleep 20000,
           Fetch (primary_request ''Hello world'' ''key''), Sleep 20000]"
      by (simp add: numeral_2_eq_2)
    have "?txt 2 = Reply True (Labels [Item (Some ''Real'') (9 / 10)])" by simp
    then show ?thesis
      unfolding r by (simp add: detectAIContent_labels sample_real_text primary_request_def
          del: scan_strict.simps)
  qed
  finally have w4: "detectAIContent ?txt NetworkError ''Hello world'' ''key'' 0 []
     = Some ([Fetch (primary_request ''Hello world'' ''key''), Sleep 20000,
              Fetch (primary_request ''Hello world'' ''key''), Sleep 20000,
              Fetch (primary_request ''Hello world'' ''key'')], Some (Fin 90))" .
  have w5: "detectAIContent (\<lambda>i. Reply True sample_loading) NetworkError ''Hello world'' ''key'' 0 [] = None"
    using b sample_loading_text by simp
  have w6: "detectAIContent (\<lambda>i. Reply True (ErrorBody ''Unauthorized'')) NetworkError ''Hello world'' ''key'' 0 []
     = Some ([Fetch (primary_request ''Hello world'' ''key'')], None)"
    using c sample_unauthorized by simp
  have w7: "detectAIContent (\<lambda>i. Reply False (ErrorBody ''Unauthorized'')) NetworkError ''Hello world'' ''key'' 0 []
     = Some ([Fetch (primary_request ''Hello world'' ''key''),
              Fetch (alternate_request ''Hello world'' ''key'')], None)"
    using d by (simp add: tryAlternateModel_def)
  from w1 w2 w3 w4 w5 w6 w7 show ?thesis by blast
qed

lemma set_dedupe: "set (dedupe ws) = set ws"
  by (simp add: dedupe_first_occurrences set_first_occurrences)

lemma fallback_warnings_fixed:
  "set (h_warnings (fallbackAIDetection text)) \<subseteq>
     {''Very uniform sentence lengths detected (common in AI text)'',
      ''Excessive use of formal transitional phrases'',
      ''Low vocabulary diversity detected'',
      ''Sensationalist language patterns detected (potential misinformation)'',
      ''Excessive use of absolute/superlative language''}"
  by (auto simp: fallbackAIDetection_def Let_def penalise_def)

lemma linguistic_warnings_fixed:
  "set (ling_warnings (analyzeLinguistics text)) \<subseteq>
     {''Low sentence length variation (typical of AI-generated text)'',
      ''Limited vocabulary diversity'',
      ''Unusually consistent writing rhythm''}"
  by (auto simp: analyzeLinguistics_def Let_def push_if_def)

lemma natural_rules_warnings:
  "set (pat_warnings (foldl (natural_rule test text) p rules)) \<subseteq>
     set (pat_warnings p) \<union> {m. \<exists>r w. (r, w, Some m) \<in> set rules}"
proof (induction rules arbitrary: p)
  case Nil
  then show ?case by simp
next
  case (Cons rule rules)
  obtain r w msg where rule: "rule = (r, w, msg)" by (cases rule)
  have "set (pat_warnings (natural_rule test text p rule)) \<subseteq>
          set (pat_warnings p) \<union> {m. msg = Some m}"
    by (auto simp: rule natural_rule_def push_msg_def split: option.splits)
  with Cons.IH [of "natural_rule test text p rule"] show ?case
    unfolding rule by (simp add: subset_iff) blast
qed

lemma credibility_rules_warnings:
  "set (pat_warnings (foldl (credibility_rule test text) p rules)) \<subseteq>
     set (pat_warnings p) \<union> {m. \<exists>r w. (r, w, Some m) \<in> set rules}"
proof (induction rules arbitrary: p)
  case Nil
  then show ?case by simp
next
  case (Cons rule rules)
  obtain r w msg where rule: "rule = (r, w, msg)" by (cases rule)
  have "set (pat_warnings (credibility_rule test text p rule)) \<subseteq>
          set (pat_warnings p) \<union> {m. msg = Some m}"
    by (auto simp: rule credibility_rule_def push_msg_def split: option.splits)
  with Cons.IH [of "credibility_rule test text p rule"] show ?case
    unfolding rule by (simp add: subset_iff) blast
qed

lemma pattern_warnings_no_ai:
  "ai_text_warning \<notin> set (pat_warnings (analyzePatterns test text))"
proof -
  let ?p0 = "\<lparr>naturalScore = 70, credibilityScore = 70, pat_warnings = []\<rparr>"
  let ?p1 = "foldl (natural_rule test text) ?p0 aiPatterns"
  let ?p2 = "foldl (credibility_rule test text) ?p1 misinfoPatterns"
  have 1: "ai_text_warning \<notin> set (pat_warnings ?p1)"
    using natural_rules_warnings [of test "text" ?p0 aiPatterns]
    by (auto simp: aiPatterns_def ai_text_warning_def)
  have 2: "ai_text_warning \<notin> set (pat_warnings ?p2)"
    using credibility_rules_warnings [of test "text" ?p1 misinfoPatterns] 1
    by (auto simp: misinfoPatterns_def ai_text_warning_def)
  show ?thesis
    using 2 by (auto simp: analyzePatterns_def Let_def ai_text_warning_def)
qed

lemma text_flags_ai_iff:
  "text_flags_ai (text_analyze_settled text ai (Fulfilled (analyzeLinguistics text))
                    (Fulfilled (analyzePatterns test text)))
     \<longleftrightarrow> (\<exists>s. ai = Fulfilled (Some s) \<and> js_lt s (Fin 40))"
proof -
  have f: "ai_text_warning \<notin> set (h_warnings (fallbackAIDetection text))"
    using fallback_warnings_fixed [of "text"] by (auto simp: ai_text_warning_def)
  have l: "ai_text_warning \<notin> set (ling_warnings (analyzeLinguistics text))"
    using linguistic_warnings_fixed [of "text"] by (auto simp: ai_text_warning_def)
  note p = pattern_warnings_no_ai [of test "text"]
  show ?thesis
    unfolding text_flags_ai_def warnings_text_analyze_settled set_dedupe
    using f l p
    by (auto simp: ai_text_warning_def split: settled.splits option.splits)
qed

lemma js_gt_complement: "js_gt (js_sub (Fin 100) s) (Fin 50) \<longleftrightarrow> js_lt s (Fin 50)"
  by (cases s) auto

lemma aiGenerated_image_analyze_settled:
  "aiGenerated (image_analyze_settled img ai df meta)
     \<longleftrightarrow> (\<exists>s. ai = Fulfilled (Some s) \<and> js_lt s (Fin 50))"
  by (auto simp: image_analyze_settled_def Let_def image_ai_step_def image_deepfake_step_def
      image_metadata_step_def image_pixel_step_def push_entry_def push_warnings_def
      split: settled.splits option.splits)

lemma deepfakeScore_image_analyze_settled:
  "deepfakeScore (image_analyze_settled img ai df meta)
     = (case df of Fulfilled (Some s) \<Rightarrow> js_sub (Fin 100) s | _ \<Rightarrow> Fin 0)"
  by (auto simp: image_analyze_settled_def Let_def image_ai_step_def image_deepfake_step_def
      image_metadata_step_def image_pixel_step_def push_entry_def push_warnings_def
      split: settled.splits option.splits)

lemma manipulationScore_image_analyze_settled:
  "manipulationScore (image_analyze_settled img ai df meta)
     = (case meta of Fulfilled m \<Rightarrow> js_sub (Fin 100) (of_integer (integrityScore m)) | _ \<Rightarrow> Fin 0)"
  by (auto simp: image_analyze_settled_def Let_def image_ai_step_def image_deepfake_step_def
      image_metadata_step_def image_pixel_step_def push_entry_def push_warnings_def
      split: settled.splits option.splits)


text \<open>
  C6 fails for the text pipeline: its report has no field that classifies the subject as
  AI-generated, and nothing in it changes at 50. With a detection score of 45 the report
  carries no warning of the detector, and apart from the scores themselves it is the report
  obtained with a detection score of 55.
\<close>

theorem text_report_no_ai_flag_counterexample:
  "js_lt (Fin 45) (Fin 50)
   \<and> \<not> text_flags_ai (text_analyze_settled ''Hello world'' (Fulfilled (Some (Fin 45)))
            (Fulfilled (analyzeLinguistics ''Hello world''))
            (Fulfilled (analyzePatterns (\<lambda>r t. False) ''Hello world'')))
   \<and> (text_analyze_settled ''Hello world'' (Fulfilled (Some (Fin 45)))
            (Fulfilled (analyzeLinguistics ''Hello world''))
            (Fulfilled (analyzePatterns (\<lambda>r t. False) ''Hello world'')))
          \<lparr>breakdown := [], overallScore := Fin 0\<rparr>
       = (text_analyze_settled ''Hello world'' (Fulfilled (Some (Fin 55)))
            (Fulfilled (analyzeLinguistics ''Hello world''))
            (Fulfilled (analyzePatterns (\<lambda>r t. False) ''Hello world'')))
          \<lparr>breakdown := [], overallScore := Fin 0\<rparr>"
proof (intro conjI)
  show "js_lt (Fin 45) (Fin 50)" by simp
  show "\<not> text_flags_ai (text_analyze_settled ''Hello world'' (Fulfilled (Some (Fin 45)))
            (Fulfilled (analyzeLinguistics ''Hello world''))
            (Fulfilled (analyzePatterns (\<lambda>r t. False) ''Hello world'')))"
    by (simp add: text_flags_ai_iff)
  show "(text_analyze_settled ''Hello world'' (Fulfilled (Some (Fin 45)))
            (Fulfilled (analyzeLinguistics ''Hello world''))
            (Fulfilled (analyzePatterns (\<lambda>r t. False) ''Hello world'')))
          \<lparr>breakdown := [], overallScore := Fin 0\<rparr>
       = (text_analyze_settled ''Hello world'' (Fulfilled (Some (Fin 55)))
            (Fulfilled (analyzeLinguistics ''Hello world''))
            (Fulfilled (analyzePatterns (\<lambda>r t. False) ''Hello world'')))
          \<lparr>breakdown := [], overallScore := Fin 0\<rparr>"
    by (simp add: text_analyze_settled_def Let_def text_ai_step_def text_linguistic_step_def
        text_pattern_step_def push_entry_def push_warnings_def)
qed

lemma integrity_after_dimensions:
  "(let m4 = (case L of
                  None \<Rightarrow> m2
                | Some im \<Rightarrow>
                    (let width = img_width im;
                         height = img_height im;
                         m3 = (if width \<in> set aiDimensions \<and> height \<in> set aiDimensions
                               then m2\<lparr>metadataScore := metadataScore m2 - 15,
                                       meta_warnings := meta_warnings m2 @ [w2 width height]\<rparr>
                               else m2)
                     in if width = height \<and> width \<in> set aiDimensions
                        then m3\<lparr>metadataScore := metadataScore m3 - 10,
                                meta_warnings := meta_warnings m3 @ [w3]\<rparr>
                        else m3))
      in integrityScore (m4\<lparr>integrityScore := clamp 10 95 (integrityScore m4),
            metadataScore := clamp 10 95 (metadataScore m4)\<rparr>))
   = clamp 10 95 (integrityScore m2)"
  by (cases L) (simp_all add: Let_def)

lemma integrityScore_Let: "integrityScore (Let a g) = (let x = a in integrityScore (g x))"
  by simp

text \<open>The dimensions of the image never touch the integrity score: it is decided by the size.\<close>

lemma integrity_by_size:
  "integrityScore (analyzeMetadata img) =
     (let fileSize = blob_size img;
          m0 = \<lparr>integrityScore = 70, metadataScore = 65, meta_warnings = []\<rparr>;
          m1 = (if fileSize > 0 \<and> fileSize < 10000
                then m0\<lparr>integrityScore := integrityScore m0 - 10,
                        meta_warnings := meta_warnings m0
                          @ [''Very small file size may indicate heavy compression or modification'']\<rparr>
                else m0);
          m2 = (if fileSize > 0 \<and> fileSize > 5 * 1024 * 1024
                then m1\<lparr>integrityScore := integrityScore m1 + 5\<rparr> else m1)
      in clamp 10 95 (integrityScore m2))"
  unfolding analyzeMetadata_def
  by (simp only: integrityScore_Let integrity_after_dimensions)

lemma integrity_values: "integrityScore (analyzeMetadata img) \<in> {60, 70, 75}"
  unfolding integrity_by_size by (simp add: Let_def clamp_def)

lemma text_report_modulo_scores:
  assumes "js_lt s1 (Fin 40) \<longleftrightarrow> js_lt s2 (Fin 40)"
  shows "(text_analyze_settled text (Fulfilled (Some s1)) ling pat)
            \<lparr>breakdown := [], overallScore := Fin 0\<rparr>
         = (text_analyze_settled text (Fulfilled (Some s2)) ling pat)
            \<lparr>breakdown := [], overallScore := Fin 0\<rparr>"
  using assms
  by (cases ling; cases pat)
     (simp_all add: text_analyze_settled_def Let_def text_ai_step_def text_linguistic_step_def
        text_pattern_step_def push_entry_def push_warnings_def)

text \<open>
  C6, amended. The report of the text pipeline does not classify the subject at 50. It
  carries the warning of the remote detector exactly when that detector returned a score
  below 40, and its warnings, word count, sentence count and burstiness label are the same
  for any two remote scores on the same side of 40. The report of the image pipeline sets
  \<open>aiGenerated\<close> exactly when the entry \<open>AI Image Detection\<close> has a score below 50. Its
  \<open>deepfakeScore\<close> is 100 minus the score of the remote deepfake detector when that detector
  returned one and 0 otherwise; its \<open>manipulationScore\<close> is 100 minus the integrity score when
  the analysis of the metadata was fulfilled and 0 otherwise. The view shows the deepfake and
  the manipulation flag (a score above 50) exactly when the entries \<open>Deepfake Detection\<close> and
  \<open>File Integrity\<close> have a score below 50. The integrity score that \<open>analyzeMetadata\<close>
  computes is 60, 70 or 75, so with it the manipulation flag is never shown.
\<close>

theorem ai_flags_thresholds:
  "(text_flags_ai (text_analyze_settled text ai (Fulfilled (analyzeLinguistics text))
                     (Fulfilled (analyzePatterns test text)))
      \<longleftrightarrow> (\<exists>s. ai = Fulfilled (Some s) \<and> js_lt s (Fin 40)))
   \<and> ((js_lt s1 (Fin 40) \<longleftrightarrow> js_lt s2 (Fin 40)) \<longrightarrow>
        (text_analyze_settled text (Fulfilled (Some s1)) ling pat)
            \<lparr>breakdown := [], overallScore := Fin 0\<rparr>
         = (text_analyze_settled text (Fulfilled (Some s2)) ling pat)
            \<lparr>breakdown := [], overallScore := Fin 0\<rparr>)
   \<and> (aiGenerated (image_analyze_settled img ai' df meta)
      \<longleftrightarrow> (\<exists>e \<in> set (breakdown (image_analyze_settled img ai' df meta)).
             name e = ''AI Image Detection'' \<and> js_lt (score e) (Fin 50)))
   \<and> deepfakeScore (image_analyze_settled img ai' df meta)
       = (case df of Fulfilled (Some s) \<Rightarrow> js_sub (Fin 100) s | _ \<Rightarrow> Fin 0)
   \<and> (deepfake_likely (image_analyze_settled img ai' df meta)
      \<longleftrightarrow> (\<exists>e \<in> set (breakdown (image_analyze_settled img ai' df meta)).
             name e = ''Deepfake Detection'' \<and> js_lt (score e) (Fin 50)))
   \<and> manipulationScore (image_analyze_settled img ai' df meta)
       = (case meta of
            Fulfilled m \<Rightarrow> js_sub (Fin 100) (of_integer (integrityScore m))
          | Rejected \<Rightarrow> Fin 0)
   \<and> (manipulation_detected (image_analyze_settled img ai' df meta)
      \<longleftrightarrow> (\<exists>e \<in> set (breakdown (image_analyze_settled img ai' df meta)).
             name e = ''File Integrity'' \<and> js_lt (score e) (Fin 50)))
   \<and> integrityScore (analyzeMetadata img) \<in> {60, 70, 75}
   \<and> \<not> manipulation_detected
          (image_analyze_settled img ai' df (Fulfilled (analyzeMetadata img)))"
proof (intro conjI impI)
  show "text_flags_ai (text_analyze_settled text ai (Fulfilled (analyzeLinguistics text))
                     (Fulfilled (analyzePatterns test text)))
      \<longleftrightarrow> (\<exists>s. ai = Fulfilled (Some s) \<and> js_lt s (Fin 40))"
    by (rule text_flags_ai_iff)
  show "aiGenerated (image_analyze_settled img ai' df meta)
      \<longleftrightarrow> (\<exists>e \<in> set (breakdown (image_analyze_settled img ai' df meta)).
             name e = ''AI Image Detection'' \<and> js_lt (score e) (Fin 50))"
    unfolding aiGenerated_image_analyze_settled breakdown_image_analyze_settled
    by (auto split: settled.splits option.splits)
  show "deepfakeScore (image_analyze_settled img ai' df meta)
       = (case df of Fulfilled (Some s) \<Rightarrow> js_sub (Fin 100) s | _ \<Rightarrow> Fin 0)"
    by (rule deepfakeScore_image_analyze_settled)
  show "deepfake_likely (image_analyze_settled img ai' df meta)
      \<longleftrightarrow> (\<exists>e \<in> set (breakdown (image_analyze_settled img ai' df meta)).
             name e = ''Deepfake Detection'' \<and> js_lt (score e) (Fin 50))"
    unfolding deepfake_likely_def deepfakeScore_image_analyze_settled breakdown_image_analyze_settled
    by (auto simp: js_gt_complement split: settled.splits option.splits)
  show "manipulationScore (image_analyze_settled img ai' df meta)
       = (case meta of
            Fulfilled m \<Rightarrow> js_sub (Fin 100) (of_integer (integrityScore m))
          | Rejected \<Rightarrow> Fin 0)"
    by (simp add: manipulationScore_image_analyze_settled split: settled.splits)
  show "manipulation_detected (image_analyze_settled img ai' df meta)
      \<longleftrightarrow> (\<exists>e \<in> set (breakdown (image_analyze_settled img ai' df meta)).
             name e = ''File Integrity'' \<and> js_lt (score e) (Fin 50))"
    unfolding manipulation_detected_def manipulationScore_image_analyze_settled
      breakdown_image_analyze_settled
    by (auto simp: js_gt_complement split: settled.splits option.splits)
  show "integrityScore (analyzeMetadata img) \<in> {60, 70, 75}"
    by (rule integrity_values)
  show "\<not> manipulation_detected
          (image_analyze_settled img ai' df (Fulfilled (analyzeMetadata img)))"
    using integrity_values [of img]
    by (auto simp: manipulation_detected_def manipulationScore_image_analyze_settled of_integer_def)
next
  assume "js_lt s1 (Fin 40) \<longleftrightarrow> js_lt s2 (Fin 40)"
  then show "(text_analyze_settled text (Fulfilled (Some s1)) ling pat)
            \<lparr>breakdown := [], overallScore := Fin 0\<rparr>
         = (text_analyze_settled text (Fulfilled (Some s2)) ling pat)
            \<lparr>breakdown := [], overallScore := Fin 0\<rparr>"
    by (rule text_report_modulo_scores)
qed

theorem ai_flags_thresholds_witness:
  "text_flags_ai (text_analyze_settled ''Hello world'' (Fulfilled (Some (Fin 30)))
                     (Fulfilled (analyzeLinguistics ''Hello world''))
                     (Fulfilled (analyzePatterns (\<lambda>r t. False) ''Hello world'')))
   \<and> (text_analyze_settled ''Hello world'' (Fulfilled (Some (Fin 45)))
            (Fulfilled (analyzeLinguistics ''Hello world''))
            (Fulfilled (analyzePatterns (\<lambda>r t. False) ''Hello world'')))
          \<lparr>breakdown := [], overallScore := Fin 0\<rparr>
       = (text_analyze_settled ''Hello world'' (Fulfilled (Some (Fin 55)))
            (Fulfilled (analyzeLinguistics ''Hello world''))
            (Fulfilled (analyzePatterns (\<lambda>r t. False) ''Hello world'')))
          \<lparr>breakdown := [], overallScore := Fin 0\<rparr>
   \<and> aiGenerated (image_analyze_settled sample_image (Fulfilled (Some (Fin 30)))
        (Fulfilled (Some (Fin 20))) (Fulfilled (analyzeMetadata sample_image)))
   \<and> deepfakeScore (image_analyze_settled sample_image (Fulfilled (Some (Fin 30)))
        (Fulfilled (Some (Fin 20))) (Fulfilled (analyzeMetadata sample_image))) = Fin 80
   \<and> deepfake_likely (image_analyze_settled sample_image (Fulfilled (Some (Fin 30)))
        (Fulfilled (Some (Fin 20))) (Fulfilled (analyzeMetadata sample_image)))
   \<and> manipulationScore (image_analyze_settled sample_image (Fulfilled (Some (Fin 30)))
        (Fulfilled (Some (Fin 20))) (Fulfilled (analyzeMetadata sample_image))) = Fin 40
   \<and> \<not> manipulation_detected (image_analyze_settled sample_image (Fulfilled (Some (Fin 30)))
        (Fulfilled (Some (Fin 20))) (Fulfilled (analyzeMetadata sample_image)))
   \<and> \<not> aiGenerated (image_analyze_settled sample_image (Fulfilled None) (Fulfilled None)
        (Fulfilled (analyzeMetadata sample_image)))
   \<and> deepfakeScore (image_analyze_settled sample_image (Fulfilled None) (Fulfilled None)
        (Fulfilled (analyzeMetadata sample_image))) = Fin 0
   \<and> \<not> deepfake_likely (image_analyze_settled sample_image (Fulfilled None) (Fulfilled None)
        (Fulfilled (analyzeMetadata sample_image)))"
  using ai_flags_thresholds [of "''Hello world''" "Fulfilled (Some (Fin 30))" "\<lambda>r t. False"
      "Fin 45" "Fin 55" "Fulfilled (analyzeLinguistics ''Hello world'')"
      "Fulfilled (analyzePatterns (\<lambda>r t. False) ''Hello world'')"
      sample_image "Fulfilled (Some (Fin 30))" "Fulfilled (Some (Fin 20))"
      "Fulfilled (analyzeMetadata sample_image)"]
    ai_flags_thresholds [of "''Hello world''" "Fulfilled (Some (Fin 30))" "\<lambda>r t. False"
      "Fin 45" "Fin 55" "Fulfilled (analyzeLinguistics ''Hello world'')"
      "Fulfilled (analyzePatterns (\<lambda>r t. False) ''Hello world'')"
      sample_image "Fulfilled None" "Fulfilled None" "Fulfilled (analyzeMetadata sample_image)"]
  by (simp add: breakdown_image_analyze_settled sample_metadata of_integer_def)

section \<open>Ranges of the scores and termination of the analysis\<close>

subsection \<open>Statistics\<close>

lemma reduce_sum_counts: "reduce_sum (map of_count lens) = Fin (real (sum_list lens))"
proof -
  have "list_all is_finite (map of_count lens)"
    by (induction lens) (simp_all add: of_count_def)
  moreover have "sum_list (map the_fin (map of_count lens)) = real (sum_list lens)"
    by (induction lens) (simp_all add: of_count_def)
  ultimately show ?thesis
    by (simp add: reduce_sum_def foldl_js_add_Fin)
qed

lemma squares_fold:
  "foldl (\<lambda>sum len. js_add sum (js_pow2 (js_sub (of_count len) (Fin a)))) (Fin acc) lens
     = Fin (acc + (\<Sum>len\<leftarrow>lens. (real len - a) * (real len - a)))"
  by (induction lens arbitrary: acc) (simp_all add: of_count_def add.assoc)

lemma squares_nonneg: "0 \<le> (\<Sum>len\<leftarrow>lens. (real len - a) * (real len - a))"
  by (induction lens) simp_all

lemma variance_finite:
  assumes "lens \<noteq> []"
  shows "\<exists>v. variance lens = Fin v \<and> 0 \<le> v"
proof -
  from assms have n: "real (length lens) \<noteq> 0" by simp
  then have avg: "avgLen lens = Fin (real (sum_list lens) / real (length lens))"
    by (simp add: avgLen_def reduce_sum_counts of_count_def)
  have "variance lens =
      Fin ((\<Sum>len\<leftarrow>lens. (real len - real (sum_list lens) / real (length lens))
                          * (real len - real (sum_list lens) / real (length lens)))
           / real (length lens))"
    unfolding variance_def avg squares_fold using n by (simp add: of_count_def)
  moreover have "0 \<le> (\<Sum>len\<leftarrow>lens. (real len - real (sum_list lens) / real (length lens))
                          * (real len - real (sum_list lens) / real (length lens)))
           / real (length lens)"
    by (intro divide_nonneg_nonneg squares_nonneg) simp
  ultimately show ?thesis by blast
qed

lemma variance_empty: "variance [] = NaN"
  by (simp add: variance_def of_count_def)

lemma stdDev_finite:
  assumes "has_sentence text"
  shows "\<exists>d. stdDev text = Fin d \<and> 0 \<le> d"
proof -
  from assms have "sentenceLengths text \<noteq> []"
    by (simp add: has_sentence_def sentenceLengths_def)
  then obtain v where "variance (sentenceLengths text) = Fin v" "0 \<le> v"
    using variance_finite by blast
  then show ?thesis by (simp add: stdDev_def)
qed

lemma ling_ttr_finite:
  assumes "cleanWords text \<noteq> []"
  shows "\<exists>t. ling_ttr text = Fin t \<and> 0 \<le> t"
  using assms by (simp add: ling_ttr_def of_count_def)

lemma capped_round:
  assumes "0 \<le> x" "0 \<le> k"
  shows "\<exists>y. js_round (js_min (js_mul (Fin x) (Fin k)) (Fin 95)) = Fin y \<and> 0 \<le> y \<and> y \<le> 95"
proof -
  have "0 \<le> min (x * k) 95" using assms by simp
  then have lo: "0 \<le> \<lfloor>min (x * k) 95 + 1 / 2\<rfloor>" by simp
  have "min (x * k) 95 + 1 / 2 < 96" by simp
  then have hi: "\<lfloor>min (x * k) 95 + 1 / 2\<rfloor> \<le> 95" by (simp add: floor_le_iff)
  from lo hi show ?thesis by simp
qed

lemma mean_round:
  assumes "0 \<le> a" "a \<le> 95" "0 \<le> b" "b \<le> 95"
  shows "\<exists>y. js_round (js_div (js_add (Fin a) (Fin b)) (Fin 2)) = Fin y \<and> 0 \<le> y \<and> y \<le> 95"
proof -
  have "0 \<le> (a + b) / 2 + 1 / 2" using assms by simp
  then have lo: "0 \<le> \<lfloor>(a + b) / 2 + 1 / 2\<rfloor>" by simp
  have "(a + b) / 2 + 1 / 2 < 96" using assms by (simp add: field_simps)
  then have hi: "\<lfloor>(a + b) / 2 + 1 / 2\<rfloor> \<le> 95" by (simp add: floor_le_iff)
  from lo hi show ?thesis by simp
qed

lemma linguistics_scores:
  assumes "cleanWords text \<noteq> []" "has_sentence text"
  shows "\<exists>v s d. vocabularyScore (analyzeLinguistics text) = Fin v \<and> 0 \<le> v \<and> v \<le> 95
       \<and> variationScore (analyzeLinguistics text) = Fin s \<and> 0 \<le> s \<and> s \<le> 95
       \<and> diversityScore (analyzeLinguistics text) = Fin d \<and> 0 \<le> d \<and> d \<le> 95"
proof -
  obtain t where t: "ling_ttr text = Fin t" "0 \<le> t"
    using ling_ttr_finite [OF assms(1)] by blast
  obtain sd where sd: "stdDev text = Fin sd" "0 \<le> sd"
    using stdDev_finite [OF assms(2)] by blast
  obtain v where v: "js_round (js_min (js_mul (Fin t) (Fin 130)) (Fin 95)) = Fin v" "0 \<le> v" "v \<le> 95"
    using capped_round [of t 130] t(2) by auto
  obtain s where s: "js_round (js_min (js_mul (Fin sd) (Fin 8)) (Fin 95)) = Fin s" "0 \<le> s" "s \<le> 95"
    using capped_round [of sd 8] sd(2) by auto
  obtain d where d: "js_round (js_div (js_add (Fin v) (Fin s)) (Fin 2)) = Fin d" "0 \<le> d" "d \<le> 95"
    using mean_round [of v s] v s by auto
  have "vocabularyScore (analyzeLinguistics text) = Fin v"
    by (simp only: analyzeLinguistics_def Let_def t(1) v(1) linguistics.simps)
  moreover have "variationScore (analyzeLinguistics text) = Fin s"
    by (simp only: analyzeLinguistics_def Let_def sd(1) s(1) linguistics.simps)
  moreover have "diversityScore (analyzeLinguistics text) = Fin d"
    by (simp only: analyzeLinguistics_def Let_def t(1) sd(1) v(1) s(1) d(1) linguistics.simps)
  ultimately show ?thesis using v s d by blast
qed

lemma linguistics_degenerate:
  assumes "cleanWords text = []" "sentences_of text = []"
  shows "vocabularyScore (analyzeLinguistics text) = NaN
       \<and> variationScore (analyzeLinguistics text) = NaN
       \<and> diversityScore (analyzeLinguistics text) = NaN"
  using assms
  by (simp add: analyzeLinguistics_def Let_def ling_ttr_def stdDev_def sentenceLengths_def
      variance_empty of_count_def)

subsection \<open>Words and sentences\<close>

lemma split_runs_sep:
  "sep a \<Longrightarrow> split_runs sep (a # s) =
     (if s \<noteq> [] \<and> sep (hd s) then split_runs sep s else [] # split_runs sep s)"
  by (cases s) simp_all

lemma split_runs_nonsep:
  "\<not> sep a \<Longrightarrow> split_runs sep (a # s) =
     (case split_runs sep s of [] \<Rightarrow> [[a]] | p # ps \<Rightarrow> (a # p) # ps)"
  by simp

lemma split_runs_nonempty: "split_runs sep s \<noteq> []"
proof (induction s)
  case Nil
  show ?case by simp
next
  case (Cons a s)
  show ?case
  proof (cases "sep a")
    case True
    then show ?thesis using Cons.IH by (simp add: split_runs_sep del: split_runs.simps)
  next
    case False
    then show ?thesis
      by (cases "split_runs sep s") (simp_all add: split_runs_nonsep del: split_runs.simps)
  qed
qed

lemma split_runs_chars:
  "p \<in> set (split_runs sep s) \<Longrightarrow> c \<in> set p \<Longrightarrow> c \<in> set s \<and> \<not> sep c"
proof (induction s arbitrary: p)
  case Nil
  then show ?case by simp
next
  case (Cons a s)
  show ?case
  proof (cases "sep a")
    case True
    have "set (split_runs sep (a # s)) \<subseteq> insert [] (set (split_runs sep s))"
      using True by (auto simp: split_runs_sep simp del: split_runs.simps)
    with Cons.prems(1) have "p = [] \<or> p \<in> set (split_runs sep s)" by blast
    then show ?thesis
    proof
      assume "p = []"
      with Cons.prems(2) show ?thesis by simp
    next
      assume "p \<in> set (split_runs sep s)"
      from Cons.IH [OF this Cons.prems(2)] show ?thesis by simp
    qed
  next
    case False
    obtain q qs where q: "split_runs sep s = q # qs"
      using split_runs_nonempty [of sep s] by (cases "split_runs sep s") simp_all
    with False have "split_runs sep (a # s) = (a # q) # qs"
      by (simp add: split_runs_nonsep del: split_runs.simps)
    with Cons.prems(1) have "p = a # q \<or> p \<in> set qs" by simp
    then show ?thesis
    proof
      assume p: "p = a # q"
      show ?thesis
      proof (cases "c = a")
        case True
        with False show ?thesis by simp
      next
        case False
        with p Cons.prems(2) have "c \<in> set q" by simp
        moreover have "q \<in> set (split_runs sep s)" using q by simp
        ultimately show ?thesis using Cons.IH by simp
      qed
    next
      assume "p \<in> set qs"
      then have "p \<in> set (split_runs sep s)" using q by simp
      from Cons.IH [OF this Cons.prems(2)] show ?thesis by simp
    qed
  qed
qed

lemma lower_letter: "is_letter c \<Longrightarrow> is_az (lower_char c)"
  by (auto simp: is_letter_def is_az_def lower_char_def code_unit_def)

lemma cleanWords_nonempty:
  assumes "has_letter_word text"
  shows "cleanWords text \<noteq> []"
proof -
  from assms obtain w c where w: "w \<in> set (split_ws text)" and c: "c \<in> set w" "is_letter c"
    unfolding has_letter_word_def by blast
  from c have "lower_char c \<in> set (filter (\<lambda>c. is_az c \<or> c = CHR 0x27) (toLowerCase w))"
    by (auto simp: toLowerCase_def lower_letter)
  then have "length (filter (\<lambda>c. is_az c \<or> c = CHR 0x27) (toLowerCase w)) > 0"
    by (metis length_greater_0_conv empty_iff list.set(1))
  with w have "filter (\<lambda>c. is_az c \<or> c = CHR 0x27) (toLowerCase w) \<in> set (cleanWords text)"
    by (auto simp: cleanWords_def)
  then show ?thesis by auto
qed

lemma trim_blank:
  assumes "\<forall>c \<in> set p. is_space c"
  shows "trim p = []"
proof -
  from assms have d: "dropWhile is_space p = []" by simp
  show ?thesis by (simp only: trim_def d dropWhile.simps rev.simps)
qed

lemma whitespace_only_cleanWords:
  assumes "whitespace_only text"
  shows "cleanWords text = []"
proof -
  have "w = []" if "w \<in> set (split_ws text)" for w
  proof (cases w)
    case Nil
    then show ?thesis .
  next
    case (Cons c cs)
    with that split_runs_chars [of w is_space "text" c] have "\<not> is_space c" "c \<in> set text"
      by (auto simp: split_ws_def)
    with assms show ?thesis by (simp add: whitespace_only_def)
  qed
  then have words: "\<forall>w \<in> set (split_ws text). w = []" by blast
  show ?thesis
    unfolding cleanWords_def filter_empty_conv
  proof (intro ballI)
    fix x
    assume "x \<in> set (map (\<lambda>w. filter (\<lambda>c. is_az c \<or> c = CHR 0x27) (toLowerCase w)) (split_ws text))"
    then obtain w where "w \<in> set (split_ws text)"
        "x = filter (\<lambda>c. is_az c \<or> c = CHR 0x27) (toLowerCase w)"
      by auto
    moreover from this words have "w = []" by blast
    ultimately have "x = []" by (simp add: toLowerCase_def)
    then show "\<not> 0 < length x" by simp
  qed
qed

lemma whitespace_only_sentences:
  assumes "whitespace_only text"
  shows "sentences_of text = []"
proof -
  have "trim p = []" if "p \<in> set (split_sentences text)" for p
  proof (rule trim_blank, rule ballI)
    fix c assume "c \<in> set p"
    with that split_runs_chars [of p is_terminator "text" c] have "c \<in> set text"
      by (simp add: split_sentences_def)
    with assms show "is_space c" by (simp add: whitespace_only_def)
  qed
  then show ?thesis
    by (simp add: sentences_of_def filter_empty_conv)
qed

subsection \<open>Bounds of the heuristic scores\<close>

lemma clamp_lower: "lo \<le> hi \<Longrightarrow> lo \<le> clamp lo hi x"
  by (simp add: clamp_def)

lemma clamp_upper: "lo \<le> hi \<Longrightarrow> clamp lo hi x \<le> hi"
  by (simp add: clamp_def)

lemma in_range_of_integer: "0 \<le> k \<Longrightarrow> k \<le> 100 \<Longrightarrow> in_range (of_integer k)"
  by (simp add: of_integer_def)

lemma fallback_bounds:
  "5 \<le> h_score (fallbackAIDetection text) \<and> h_score (fallbackAIDetection text) \<le> 95"
  by (simp add: fallback_score_formula clamp_lower clamp_upper)

lemma patterns_bounds:
  "5 \<le> naturalScore (analyzePatterns test text) \<and> naturalScore (analyzePatterns test text) \<le> 95
   \<and> 5 \<le> credibilityScore (analyzePatterns test text)
   \<and> credibilityScore (analyzePatterns test text) \<le> 95"
  by (simp add: analyzePatterns_def Let_def clamp_lower clamp_upper)

lemma metadata_bounds:
  "10 \<le> integrityScore (analyzeMetadata img) \<and> integrityScore (analyzeMetadata img) \<le> 95
   \<and> 10 \<le> metadataScore (analyzeMetadata img) \<and> metadataScore (analyzeMetadata img) \<le> 95"
  by (simp add: analyzeMetadata_def Let_def clamp_lower clamp_upper)

lemma pixels_bounds:
  "10 \<le> h_score (analyzePixelPatterns img) \<and> h_score (analyzePixelPatterns img) \<le> 95"
  by (simp add: analyzePixelPatterns_def Let_def clamp_lower clamp_upper split: option.splits)

lemma fallback_in_range: "in_range (of_integer (h_score (fallbackAIDetection text)))"
  using fallback_bounds [of "text"] by (intro in_range_of_integer) simp_all

lemma patterns_in_range:
  "in_range (of_integer (naturalScore (analyzePatterns test text)))
   \<and> in_range (of_integer (credibilityScore (analyzePatterns test text)))"
  using patterns_bounds [of test "text"] by (simp add: of_integer_def)

lemma metadata_in_range:
  "in_range (of_integer (integrityScore (analyzeMetadata img)))
   \<and> in_range (of_integer (metadataScore (analyzeMetadata img)))"
  using metadata_bounds [of img] by (simp add: of_integer_def)

lemma pixels_in_range: "in_range (of_integer (h_score (analyzePixelPatterns img)))"
  using pixels_bounds [of img] by (simp add: of_integer_def)

lemma percent_in_range: "0 \<le> s \<Longrightarrow> s \<le> 1 \<Longrightarrow> in_range (percent s)"
proof -
  assume s: "0 \<le> s" "s \<le> 1"
  then have "0 \<le> s * 100 + 1 / 2" by simp
  then have lo: "0 \<le> \<lfloor>s * 100 + 1 / 2\<rfloor>" by simp
  from s have "s * 100 + 1 / 2 < 101" by simp
  then have hi: "\<lfloor>s * 100 + 1 / 2\<rfloor> \<le> 100" by (simp add: floor_le_iff)
  from lo hi show ?thesis by (simp add: percent_def)
qed


subsection \<open>What the detectors return\<close>

lemma scan_strict_value:
  "scan_strict matches acc its = Some s \<Longrightarrow> Q acc
     \<Longrightarrow> \<forall>it \<in> set its. Q (percent (item_score it)) \<Longrightarrow> Q s"
proof (induction its arbitrary: acc)
  case Nil
  then show ?case by simp
next
  case (Cons it its)
  from Cons.prems(1) obtain l where l: "item_label it = Some l"
    by (cases "item_label it") simp_all
  let ?acc = "if matches (toLowerCase l) then percent (item_score it) else acc"
  from Cons.prems(1) l have "scan_strict matches ?acc its = Some s" by simp
  moreover have "Q ?acc" using Cons.prems(2,3) by simp
  moreover have "\<forall>it \<in> set its. Q (percent (item_score it))" using Cons.prems(3) by simp
  ultimately show ?case by (rule Cons.IH)
qed

lemma scan_lenient_value:
  "Q acc \<Longrightarrow> \<forall>it \<in> set its. Q (percent (item_score it)) \<Longrightarrow> Q (scan_lenient matches acc its)"
  by (induction its arbitrary: acc) simp_all

lemma tryAlternateModel_value:
  assumes "tryAlternateModel alt = Some s" "Q (Fin 50)"
    and "\<forall>it \<in> set (response_items alt). Q (percent (item_score it))"
  shows "Q s"
proof (cases alt)
  case NetworkError
  with assms(1) show ?thesis by (simp add: tryAlternateModel_def)
next
  case (Reply ok data)
  show ?thesis
  proof (cases data)
    case (Labels its)
    show ?thesis
    proof (cases its)
      case Nil
      with assms(1,2) Reply Labels show ?thesis
        by (simp add: tryAlternateModel_def split: if_splits)
    next
      case (Cons it its')
      with assms(1) Reply Labels have "scan_strict alternate_label (Fin 50) its = Some s"
        by (simp add: tryAlternateModel_def split: if_splits)
      moreover from assms(3) Reply Labels have "\<forall>it \<in> set its. Q (percent (item_score it))"
        by (simp add: response_items_def)
      ultimately show ?thesis using assms(2) scan_strict_value by blast
    qed
  next
    case (NestedLabels its)
    with assms(1) Reply have "scan_strict alternate_label (Fin 50) its = Some s"
      by (simp add: tryAlternateModel_def split: if_splits)
    moreover from assms(3) Reply NestedLabels have "\<forall>it \<in> set its. Q (percent (item_score it))"
      by (simp add: response_items_def)
    ultimately show ?thesis using assms(2) scan_strict_value by blast
  qed (use assms(1,2) Reply in \<open>simp_all add: tryAlternateModel_def split: if_splits\<close>)
qed

lemma detectAIContent_value:
  assumes "detectAIContent srv alt text apiKey n tr = Some y"
  shows "\<forall>s. snd y = Some s \<longrightarrow> Q (Fin 50)
           \<longrightarrow> (\<forall>i. \<forall>it \<in> set (response_items (srv i)). Q (percent (item_score it)))
           \<longrightarrow> (\<forall>it \<in> set (response_items alt). Q (percent (item_score it)))
           \<longrightarrow> Q s"
proof (rule detectAIContent.raw_induct
    [where P = "\<lambda>srv alt text apiKey n tr y.
        \<forall>s. snd y = Some s \<longrightarrow> Q (Fin 50)
           \<longrightarrow> (\<forall>i. \<forall>it \<in> set (response_items (srv i)). Q (percent (item_score it)))
           \<longrightarrow> (\<forall>it \<in> set (response_items alt). Q (percent (item_score it)))
           \<longrightarrow> Q s", OF _ assms], goal_cases)
  case (1 f srv alt text' apiKey n tr y)
  show ?case
  proof (intro allI impI)
    fix s
    assume y: "snd y = Some s" and q: "Q (Fin 50)"
      and srv: "\<forall>i. \<forall>it \<in> set (response_items (srv i)). Q (percent (item_score it))"
      and alt: "\<forall>it \<in> set (response_items alt). Q (percent (item_score it))"
    from srv have here: "\<forall>it \<in> set (response_items (srv n)). Q (percent (item_score it))"
      by blast
    let ?tr1 = "tr @ [Fetch (text_request ''openai-community/roberta-base-openai-detector'' text' apiKey)]"
    show "Q s"
    proof (cases "srv n")
      case NetworkError
      with 1(2) have "y = (?tr1, None)" by (simp add: Let_def)
      with y show ?thesis by simp
    next
      case (Reply ok data)
      show ?thesis
      proof (cases ok)
        case False
        with 1(2) Reply have "snd y = tryAlternateModel alt" by (auto simp: Let_def)
        with y have "tryAlternateModel alt = Some s" by simp
        then show ?thesis using q alt by (rule tryAlternateModel_value)
      next
        case True
        with 1(2) Reply have body:
          "(case data of
              NotJson \<Rightarrow> Some (?tr1, None)
            | JsonNull \<Rightarrow> Some (?tr1, None)
            | ErrorBody e \<Rightarrow>
                if e \<noteq> [] then
                  (if str_includes e ''loading''
                   then f srv alt text' apiKey (Suc n) (?tr1 @ [Sleep 20000])
                   else Some (?tr1, None))
                else Some (?tr1, Some (Fin 50))
            | Labels its \<Rightarrow> Some (?tr1, scan_strict primary_label (Fin 50) its)
            | NestedLabels its \<Rightarrow> Some (?tr1, scan_strict primary_label (Fin 50) its)
            | OtherJson \<Rightarrow> Some (?tr1, Some (Fin 50))) = Some y"
          by (simp add: Let_def)
        show ?thesis
        proof (cases data)
          case NotJson
          with body have "y = (?tr1, None)" by simp
          with y show ?thesis by simp
        next
          case JsonNull
          with body have "y = (?tr1, None)" by simp
          with y show ?thesis by simp
        next
          case (ErrorBody e)
          show ?thesis
          proof (cases "e = []")
            case True
            with body ErrorBody have "y = (?tr1, Some (Fin 50))" by simp
            with y q show ?thesis by simp
          next
            case False
            show ?thesis
            proof (cases "str_includes e ''loading''")
              case True
              with body ErrorBody \<open>e \<noteq> []\<close>
              have "f srv alt text' apiKey (Suc n) (?tr1 @ [Sleep 20000]) = Some y" by simp
              from 1(1) [OF this] y q srv alt show ?thesis by blast
            next
              case False
              with body ErrorBody \<open>e \<noteq> []\<close> have "y = (?tr1, None)" by simp
              with y show ?thesis by simp
            qed
          qed
        next
          case (Labels its)
          with body have "y = (?tr1, scan_strict primary_label (Fin 50) its)" by simp
          with y have "scan_strict primary_label (Fin 50) its = Some s" by simp
          moreover from here Reply Labels have "\<forall>it \<in> set its. Q (percent (item_score it))"
            by (simp add: response_items_def)
          ultimately show ?thesis using q scan_strict_value by blast
        next
          case (NestedLabels its)
          with body have "y = (?tr1, scan_strict primary_label (Fin 50) its)" by simp
          with y have "scan_strict primary_label (Fin 50) its = Some s" by simp
          moreover from here Reply NestedLabels have "\<forall>it \<in> set its. Q (percent (item_score it))"
            by (simp add: response_items_def)
          ultimately show ?thesis using q scan_strict_value by blast
        next
          case OtherJson
          with body have "y = (?tr1, Some (Fin 50))" by simp
          with y q show ?thesis by simp
        qed
      qed
    qed
  qed
qed

lemma detect_image_value:
  assumes "detect_image m matches srv binaryData apiKey n tr = Some y"
  shows "\<forall>s. snd y = Some s \<longrightarrow> Q (Fin 50)
           \<longrightarrow> (\<forall>i. \<forall>it \<in> set (response_items (srv i)). Q (percent (item_score it)))
           \<longrightarrow> Q s"
proof (rule detect_image.raw_induct
    [where P = "\<lambda>m matches srv binaryData apiKey n tr y.
        \<forall>s. snd y = Some s \<longrightarrow> Q (Fin 50)
           \<longrightarrow> (\<forall>i. \<forall>it \<in> set (response_items (srv i)). Q (percent (item_score it)))
           \<longrightarrow> Q s", OF _ assms], goal_cases)
  case (1 f m matches srv binaryData apiKey n tr y)
  show ?case
  proof (intro allI impI)
    fix s
    assume y: "snd y = Some s" and q: "Q (Fin 50)"
      and srv: "\<forall>i. \<forall>it \<in> set (response_items (srv i)). Q (percent (item_score it))"
    from srv have here: "\<forall>it \<in> set (response_items (srv n)). Q (percent (item_score it))"
      by blast
    let ?tr1 = "tr @ [Fetch (image_request m binaryData apiKey)]"
    show "Q s"
    proof (cases "srv n")
      case NetworkError
      with 1(2) have "y = (?tr1, None)" by (simp add: Let_def)
      with y show ?thesis by simp
    next
      case (Reply ok data)
      show ?thesis
      proof (cases ok)
        case False
        with 1(2) Reply have body:
          "(case data of
              ErrorBody e \<Rightarrow>
                if e \<noteq> [] \<and> str_includes e ''loading''
                then f m matches srv binaryData apiKey (Suc n) (?tr1 @ [Sleep 20000])
                else Some (?tr1, None)
            | _ \<Rightarrow> Some (?tr1, None)) = Some y"
          by (simp add: Let_def)
        show ?thesis
        proof (cases "\<exists>e. data = ErrorBody e \<and> e \<noteq> [] \<and> str_includes e ''loading''")
          case True
          with body have "f m matches srv binaryData apiKey (Suc n) (?tr1 @ [Sleep 20000]) = Some y"
            by auto
          from 1(1) [OF this] y q srv show ?thesis by blast
        next
          case False
          with body have "y = (?tr1, None)" by (cases data) (auto split: if_splits)
          with y show ?thesis by simp
        qed
      next
        case True
        with 1(2) Reply have body:
          "(case data of
              NotJson \<Rightarrow> Some (?tr1, None)
            | Labels its \<Rightarrow> Some (?tr1, Some (scan_lenient matches (Fin 50) its))
            | _ \<Rightarrow> Some (?tr1, Some (Fin 50))) = Some y"
          by (simp add: Let_def)
        show ?thesis
        proof (cases data)
          case NotJson
          with body have "y = (?tr1, None)" by simp
          with y show ?thesis by simp
        next
          case (Labels its)
          with body have "y = (?tr1, Some (scan_lenient matches (Fin 50) its))" by simp
          with y have s: "s = scan_lenient matches (Fin 50) its" by simp
          from here Reply Labels have "\<forall>it \<in> set its. Q (percent (item_score it))"
            by (simp add: response_items_def)
          with q show ?thesis unfolding s by (rule scan_lenient_value)
        qed (use body y q in auto)
      qed
    qed
  qed
qed


lemma detect_image_returns:
  assumes "\<not> image_loading (srv n)"
  shows "\<exists>y. detect_image m matches srv binaryData apiKey n tr = Some y"
proof (cases "srv n")
  case NetworkError
  then show ?thesis
    unfolding detect_image.simps [of m matches srv binaryData apiKey n tr] by (simp add: Let_def)
next
  case (Reply ok data)
  note unfold = detect_image.simps [of m matches srv binaryData apiKey n tr]
  show ?thesis
  proof (cases ok)
    case True
    with Reply show ?thesis unfolding unfold by (cases data) (simp_all add: Let_def)
  next
    case False
    show ?thesis
    proof (cases data)
      case (ErrorBody e)
      with Reply False assms have "e = [] \<or> \<not> str_includes e ''loading''"
        by (auto simp: image_loading_def)
      with Reply False ErrorBody show ?thesis unfolding unfold by (auto simp: Let_def)
    qed (use Reply False in \<open>simp_all add: unfold Let_def\<close>)
  qed
qed

lemma first_answer:
  assumes "\<exists>i. \<not> loading (srv i)"
  shows "\<exists>k::nat. (\<forall>i<k. loading (srv (0 + i))) \<and> \<not> loading (srv (0 + k))"
proof -
  define k where "k = (LEAST i. \<not> loading (srv i))"
  have 1: "\<not> loading (srv k)" unfolding k_def using assms by (rule LeastI_ex)
  have 2: "loading (srv i)" if "i < k" for i
    using that not_less_Least [of i "\<lambda>i. \<not> loading (srv i)"] unfolding k_def by blast
  from 1 2 show ?thesis by (intro exI [of _ k]) simp
qed


lemma detect_image_terminates:
  assumes "\<exists>i. \<not> image_loading (srv i)"
  shows "\<exists>y. detect_image m matches srv binaryData apiKey 0 [] = Some y"
proof -
  from first_answer [of image_loading srv] assms
  obtain k where k: "\<forall>i<k. image_loading (srv (0 + i))" "\<not> image_loading (srv (0 + k))"
    by blast
  let ?tr = "[] @ concat (replicate k [Fetch (image_request m binaryData apiKey), Sleep 20000])"
  have eq: "detect_image m matches srv binaryData apiKey 0 [] =
      detect_image m matches srv binaryData apiKey (0 + k) ?tr"
    using k(1) by (rule detect_image_retries)
  obtain y where "detect_image m matches srv binaryData apiKey (0 + k) ?tr = Some y"
    using detect_image_returns [of srv "0 + k" m matches binaryData apiKey ?tr] k(2) by blast
  then have "detect_image m matches srv binaryData apiKey 0 [] = Some y"
    by (simp only: eq)
  then show ?thesis ..
qed

subsection \<open>The reports of the two pipelines\<close>

lemma TextAnalyzer_analyze_detector:
  assumes "TextAnalyzer_analyze test srv alt text apiKey = Some r"
  shows "\<exists>tr ai. detectAIContent srv alt text apiKey 0 [] = Some (tr, ai)
           \<and> r = text_analyze_settled text (Fulfilled ai) (Fulfilled (analyzeLinguistics text))
                  (Fulfilled (analyzePatterns test text))"
  using assms by (auto simp: TextAnalyzer_analyze_def split: option.splits)

lemma ImageAnalyzer_analyze_detectors:
  assumes "ImageAnalyzer_analyze srv_ai srv_df img apiKey = Some r"
  shows "\<exists>tr ai tr' df. detectAIGenerated srv_ai (bytes img) apiKey = Some (tr, ai)
           \<and> detectDeepfake srv_df (bytes img) apiKey = Some (tr', df)
           \<and> r = image_analyze_settled img (Fulfilled ai) (Fulfilled df)
                  (Fulfilled (analyzeMetadata img))"
  using assms by (fastforce simp: ImageAnalyzer_analyze_def split: option.splits)


lemma text_scores_property:
  assumes run: "detectAIContent srv alt text apiKey 0 [] = Some (tr, ai)"
    and q50: "Q (Fin 50)"
    and remote: "\<forall>i. \<forall>it \<in> set (response_items (srv i)). Q (percent (item_score it))"
    and alternate: "\<forall>it \<in> set (response_items alt). Q (percent (item_score it))"
    and fallback: "Q (of_integer (h_score (fallbackAIDetection text)))"
    and ling: "Q (diversityScore (analyzeLinguistics text))"
      "Q (variationScore (analyzeLinguistics text))" "Q (vocabularyScore (analyzeLinguistics text))"
    and pat: "Q (of_integer (naturalScore (analyzePatterns test text)))"
      "Q (of_integer (credibilityScore (analyzePatterns test text)))"
  shows "list_all Q (map score (breakdown (text_analyze_settled text (Fulfilled ai)
            (Fulfilled (analyzeLinguistics text)) (Fulfilled (analyzePatterns test text)))))"
proof -
  have first: "Q (score (case ai of
        Some humanScore \<Rightarrow> \<lparr>name = ''AI Detection Model (RoBERTa)'', score = humanScore\<rparr>
      | None \<Rightarrow> \<lparr>name = ''AI Detection (Heuristic Fallback)'',
               score = of_integer (h_score (fallbackAIDetection text))\<rparr>))"
  proof (cases ai)
    case None
    with fallback show ?thesis by simp
  next
    case (Some s)
    from detectAIContent_value [OF run, of Q] Some q50 remote alternate have "Q s" by simp
    with Some show ?thesis by simp
  qed
  show ?thesis
    unfolding breakdown_text_analyze_settled
    using first ling pat by (cases ai) simp_all
qed

lemma image_scores_property:
  assumes ai: "detectAIGenerated srv_ai (bytes img) apiKey = Some (tr, ai)"
    and df: "detectDeepfake srv_df (bytes img) apiKey = Some (tr', df)"
    and q: "Q (Fin 50)" "Q (Fin 60)" "Q (Fin 70)"
    and remote_ai: "\<forall>i. \<forall>it \<in> set (response_items (srv_ai i)). Q (percent (item_score it))"
    and remote_df: "\<forall>i. \<forall>it \<in> set (response_items (srv_df i)). Q (percent (item_score it))"
    and meta: "Q (of_integer (integrityScore (analyzeMetadata img)))"
      "Q (of_integer (metadataScore (analyzeMetadata img)))"
    and pix: "Q (of_integer (h_score (analyzePixelPatterns img)))"
  shows "list_all Q (map score (breakdown (image_analyze_settled img (Fulfilled ai) (Fulfilled df)
            (Fulfilled (analyzeMetadata img)))))"
proof -
  have 1: "Q (score (case ai of
        Some realScore \<Rightarrow> \<lparr>name = ''AI Image Detection'', score = realScore\<rparr>
      | None \<Rightarrow> \<lparr>name = ''AI Detection (Heuristic)'', score = Fin 60\<rparr>))"
  proof (cases ai)
    case None
    with q show ?thesis by simp
  next
    case (Some s)
    from detect_image_value [OF ai [unfolded detectAIGenerated_def], of Q] Some q(1) remote_ai
    have "Q s" by simp
    with Some show ?thesis by simp
  qed
  have 2: "Q (case df of Some realScore \<Rightarrow> realScore | None \<Rightarrow> Fin 70)"
  proof (cases df)
    case None
    with q show ?thesis by simp
  next
    case (Some s)
    from detect_image_value [OF df [unfolded detectDeepfake_def], of Q] Some q(1) remote_df
    have "Q s" by simp
    with Some show ?thesis by simp
  qed
  show ?thesis
    unfolding breakdown_image_analyze_settled
    using 1 2 meta pix by (cases ai; cases df) simp_all
qed

lemma probabilities_in_range:
  "probabilities r \<Longrightarrow> it \<in> set (response_items r) \<Longrightarrow> in_range (percent (item_score it))"
  by (simp add: probabilities_def percent_in_range)



lemma in_range_finite: "in_range x \<Longrightarrow> is_finite x"
  by (cases x) simp_all


lemma linguistics_in_range:
  assumes "has_letter_word text" "has_sentence text"
  shows "in_range (diversityScore (analyzeLinguistics text))"
    "in_range (variationScore (analyzeLinguistics text))"
    "in_range (vocabularyScore (analyzeLinguistics text))"
  using linguistics_scores [OF cleanWords_nonempty [OF assms(1)] assms(2)] by auto



lemma text_report_in_range:
  assumes "TextAnalyzer_analyze test srv alt text apiKey = Some r"
    "has_letter_word text" "has_sentence text" "\<forall>i. probabilities (srv i)" "probabilities alt"
  shows "list_all in_range (map score (breakdown r))"
proof -
  from assms(1) obtain tr ai where run: "detectAIContent srv alt text apiKey 0 [] = Some (tr, ai)"
    and r: "r = text_analyze_settled text (Fulfilled ai) (Fulfilled (analyzeLinguistics text))
                  (Fulfilled (analyzePatterns test text))"
    using TextAnalyzer_analyze_detector by blast
  show ?thesis
    unfolding r using run
    by (rule text_scores_property)
       (use assms(4,5) in \<open>auto simp: fallback_in_range patterns_in_range
          linguistics_in_range [OF assms(2,3)] intro: probabilities_in_range\<close>)
qed

lemma image_report_in_range:
  assumes "ImageAnalyzer_analyze srv_ai srv_df img apiKey = Some r"
    "\<forall>i. probabilities (srv_ai i)" "\<forall>i. probabilities (srv_df i)"
  shows "list_all in_range (map score (breakdown r))"
proof -
  from assms(1) obtain tr ai tr' df where
    ai: "detectAIGenerated srv_ai (bytes img) apiKey = Some (tr, ai)"
    and df: "detectDeepfake srv_df (bytes img) apiKey = Some (tr', df)"
    and r: "r = image_analyze_settled img (Fulfilled ai) (Fulfilled df)
                  (Fulfilled (analyzeMetadata img))"
    using ImageAnalyzer_analyze_detectors by blast
  show ?thesis
    unfolding r using ai df
    by (rule image_scores_property)
       (use assms(2,3) in \<open>auto simp: metadata_in_range pixels_in_range
          intro: probabilities_in_range\<close>)
qed

lemma sample_over_text:
  "scan_strict primary_label (Fin 50) [Item (Some ''Real'') (3 / 2)] = Some (Fin 150)"
  by code_simp

lemma sample_real_deepfake:
  "scan_lenient deepfake_label (Fin 50) [Item (Some ''Real'') (9 / 10)] = Fin 90"
  by code_simp

lemma sample_words: "has_letter_word ''Hello world'' \<and> has_sentence ''Hello world''"
  by (simp add: has_letter_word_def has_sentence_def is_letter_def str_defs stat_defs)


lemma sample_empty: "whitespace_only ''''"
  by (simp add: whitespace_only_def)

lemma sample_real_run:
  "TextAnalyzer_analyze (\<lambda>r t. False) (\<lambda>n. Reply True (Labels [Item (Some ''Real'') (9 / 10)]))
       NetworkError ''Hello world'' ''key'' =
     Some (text_analyze_settled ''Hello world'' (Fulfilled (Some (Fin 90)))
             (Fulfilled (analyzeLinguistics ''Hello world''))
             (Fulfilled (analyzePatterns (\<lambda>r t. False) ''Hello world'')))"
  by (simp add: TextAnalyzer_analyze_def detectAIContent_labels sample_real_text
      del: scan_strict.simps)

lemma sample_over_run:
  "TextAnalyzer_analyze (\<lambda>r t. False) (\<lambda>n. Reply True (Labels [Item (Some ''Real'') (3 / 2)]))
       NetworkError ''Hello world'' ''key'' =
     Some (text_analyze_settled ''Hello world'' (Fulfilled (Some (Fin 150)))
             (Fulfilled (analyzeLinguistics ''Hello world''))
             (Fulfilled (analyzePatterns (\<lambda>r t. False) ''Hello world'')))"
  by (simp add: TextAnalyzer_analyze_def detectAIContent_labels sample_over_text
      del: scan_strict.simps)

lemma sample_blank_run:
  "TextAnalyzer_analyze (\<lambda>r t. False) (\<lambda>n. NetworkError) NetworkError t ''key'' =
     Some (text_analyze_settled t (Fulfilled None)
             (Fulfilled (analyzeLinguistics t))
             (Fulfilled (analyzePatterns (\<lambda>r t. False) t)))"
  by (simp add: TextAnalyzer_analyze_def detectAIContent_network_error)

lemma sample_real_image_run:
  "ImageAnalyzer_analyze (\<lambda>n. Reply True (Labels [Item (Some ''Real'') (9 / 10)]))
       (\<lambda>n. Reply True (Labels [Item (Some ''Real'') (9 / 10)])) sample_image ''key'' =
     Some (image_analyze_settled sample_image (Fulfilled (Some (Fin 90))) (Fulfilled (Some (Fin 90)))
             (Fulfilled (analyzeMetadata sample_image)))"
  by (simp add: ImageAnalyzer_analyze_def detectAIGenerated_def detectDeepfake_def
      detect_image_labels sample_real sample_real_deepfake del: scan_lenient.simps)

lemma sample_probabilities:
  "probabilities (Reply True (Labels [Item (Some ''Real'') (9 / 10)])) \<and> probabilities NetworkError"
  by (simp add: probabilities_def response_items_def)





text \<open>
  C3 fails: the score of a remote response is stored as \<open>Math.round(result.score * 100)\<close>
  with no clamp, so that a response score of 1.5 is stored as 150; and for the empty text the
  linguistic scores are \<open>NaN\<close>.
\<close>

theorem remote_score_unclamped_counterexample:
  "TextAnalyzer_analyze (\<lambda>r t. False) (\<lambda>n. Reply True (Labels [Item (Some ''Real'') (3 / 2)]))
       NetworkError ''Hello world'' ''key'' =
     Some (text_analyze_settled ''Hello world'' (Fulfilled (Some (Fin 150)))
             (Fulfilled (analyzeLinguistics ''Hello world''))
             (Fulfilled (analyzePatterns (\<lambda>r t. False) ''Hello world'')))
   \<and> hd (breakdown (text_analyze_settled ''Hello world'' (Fulfilled (Some (Fin 150)))
             (Fulfilled (analyzeLinguistics ''Hello world''))
             (Fulfilled (analyzePatterns (\<lambda>r t. False) ''Hello world''))))
       = \<lparr>name = ''AI Detection Model (RoBERTa)'', score = Fin 150\<rparr>
   \<and> \<not> in_range (Fin 150)
   \<and> TextAnalyzer_analyze (\<lambda>r t. False) (\<lambda>n. NetworkError) NetworkError '''' ''key'' =
     Some (text_analyze_settled '''' (Fulfilled None) (Fulfilled (analyzeLinguistics ''''))
             (Fulfilled (analyzePatterns (\<lambda>r t. False) '''')))
   \<and> breakdown (text_analyze_settled '''' (Fulfilled None) (Fulfilled (analyzeLinguistics ''''))
             (Fulfilled (analyzePatterns (\<lambda>r t. False) ''''))) ! 1
       = \<lparr>name = ''Linguistic Diversity'', score = NaN\<rparr>
   \<and> \<not> in_range NaN"
proof (intro conjI)
  show "TextAnalyzer_analyze (\<lambda>r t. False) (\<lambda>n. Reply True (Labels [Item (Some ''Real'') (3 / 2)]))
       NetworkError ''Hello world'' ''key'' =
     Some (text_analyze_settled ''Hello world'' (Fulfilled (Some (Fin 150)))
             (Fulfilled (analyzeLinguistics ''Hello world''))
             (Fulfilled (analyzePatterns (\<lambda>r t. False) ''Hello world'')))"
    by (rule sample_over_run)
  show "hd (breakdown (text_analyze_settled ''Hello world'' (Fulfilled (Some (Fin 150)))
             (Fulfilled (analyzeLinguistics ''Hello world''))
             (Fulfilled (analyzePatterns (\<lambda>r t. False) ''Hello world''))))
       = \<lparr>name = ''AI Detection Model (RoBERTa)'', score = Fin 150\<rparr>"
    by (simp add: breakdown_text_analyze_settled)
  show "\<not> in_range (Fin 150)" by simp
  show "TextAnalyzer_analyze (\<lambda>r t. False) (\<lambda>n. NetworkError) NetworkError '''' ''key'' =
     Some (text_analyze_settled '''' (Fulfilled None) (Fulfilled (analyzeLinguistics ''''))
             (Fulfilled (analyzePatterns (\<lambda>r t. False) '''')))"
    by (rule sample_blank_run)
  show "breakdown (text_analyze_settled '''' (Fulfilled None) (Fulfilled (analyzeLinguistics ''''))
             (Fulfilled (analyzePatterns (\<lambda>r t. False) ''''))) ! 1
       = \<lparr>name = ''Linguistic Diversity'', score = NaN\<rparr>"
    using linguistics_degenerate [OF whitespace_only_cleanWords [OF sample_empty]
        whitespace_only_sentences [OF sample_empty]]
    by (simp add: breakdown_text_analyze_settled)
  show "\<not> in_range NaN" by simp
qed

text \<open>
  C3, amended. Every score in a breakdown entry of a returned report lies between 0 and 100
  provided that every score of the remote responses lies between 0 and 1, a remote score
  not being clamped, and, in the text pipeline, that the text has a word with a letter from
  \<open>a\<close> to \<open>z\<close> or \<open>A\<close> to \<open>Z\<close> and a sentence that is not empty. The heuristic
  scores of the text fallback, of the pattern analysis, of the metadata analysis, of the pixel
  analysis and of the image fallback lie between 0 and 100 for every input.
\<close>

theorem breakdown_scores_in_range:
  "(TextAnalyzer_analyze test srv alt text apiKey = Some r
      \<and> has_letter_word text \<and> has_sentence text
      \<and> (\<forall>i. probabilities (srv i)) \<and> probabilities alt
     \<longrightarrow> list_all in_range (map score (breakdown r)))
   \<and> (ImageAnalyzer_analyze srv_ai srv_df img apiKey = Some r'
      \<and> (\<forall>i. probabilities (srv_ai i)) \<and> (\<forall>i. probabilities (srv_df i))
     \<longrightarrow> list_all in_range (map score (breakdown r')))
   \<and> in_range (of_integer (h_score (fallbackAIDetection text)))
   \<and> in_range (of_integer (naturalScore (analyzePatterns test text)))
   \<and> in_range (of_integer (credibilityScore (analyzePatterns test text)))
   \<and> in_range (of_integer (integrityScore (analyzeMetadata img)))
   \<and> in_range (of_integer (metadataScore (analyzeMetadata img)))
   \<and> in_range (of_integer (h_score (analyzePixelPatterns img)))
   \<and> in_range (of_integer (h_score fallbackImageAnalysis))"
proof (intro conjI impI)
  assume "TextAnalyzer_analyze test srv alt text apiKey = Some r
      \<and> has_letter_word text \<and> has_sentence text
      \<and> (\<forall>i. probabilities (srv i)) \<and> probabilities alt"
  then show "list_all in_range (map score (breakdown r))"
    by (intro text_report_in_range [of test srv alt "text" apiKey r]) simp_all
next
  assume "ImageAnalyzer_analyze srv_ai srv_df img apiKey = Some r'
      \<and> (\<forall>i. probabilities (srv_ai i)) \<and> (\<forall>i. probabilities (srv_df i))"
  then show "list_all in_range (map score (breakdown r'))"
    by (intro image_report_in_range [of srv_ai srv_df img apiKey r']) simp_all
next
  show "in_range (of_integer (h_score (fallbackAIDetection text)))"
    by (rule fallback_in_range)
  show "in_range (of_integer (naturalScore (analyzePatterns test text)))"
    "in_range (of_integer (credibilityScore (analyzePatterns test text)))"
    using patterns_in_range [of test "text"] by simp_all
  show "in_range (of_integer (integrityScore (analyzeMetadata img)))"
    "in_range (of_integer (metadataScore (analyzeMetadata img)))"
    using metadata_in_range [of img] by simp_all
  show "in_range (of_integer (h_score (analyzePixelPatterns img)))"
    by (rule pixels_in_range)
  show "in_range (of_integer (h_score fallbackImageAnalysis))"
    by (simp add: fallbackImageAnalysis_def of_integer_def)
qed

theorem breakdown_scores_in_range_witness:
  "TextAnalyzer_analyze (\<lambda>r t. False)
       (\<lambda>n. Reply True (Labels [Item (Some ''Real'') (9 / 10)])) NetworkError
       ''Hello world'' ''key'' =
     Some (text_analyze_settled ''Hello world'' (Fulfilled (Some (Fin 90)))
             (Fulfilled (analyzeLinguistics ''Hello world''))
             (Fulfilled (analyzePatterns (\<lambda>r t. False) ''Hello world'')))
   \<and> has_letter_word ''Hello world'' \<and> has_sentence ''Hello world''
   \<and> probabilities (Reply True (Labels [Item (Some ''Real'') (9 / 10)]))
   \<and> probabilities NetworkError
   \<and> list_all in_range (map score (breakdown
        (text_analyze_settled ''Hello world'' (Fulfilled (Some (Fin 90)))
           (Fulfilled (analyzeLinguistics ''Hello world''))
           (Fulfilled (analyzePatterns (\<lambda>r t. False) ''Hello world'')))))
   \<and> ImageAnalyzer_analyze (\<lambda>n. Reply True (Labels [Item (Some ''Real'') (9 / 10)]))
       (\<lambda>n. Reply True (Labels [Item (Some ''Real'') (9 / 10)])) sample_image ''key'' =
     Some (image_analyze_settled sample_image (Fulfilled (Some (Fin 90))) (Fulfilled (Some (Fin 90)))
             (Fulfilled (analyzeMetadata sample_image)))
   \<and> list_all in_range (map score (breakdown
        (image_analyze_settled sample_image (Fulfilled (Some (Fin 90))) (Fulfilled (Some (Fin 90)))
             (Fulfilled (analyzeMetadata sample_image)))))"
proof -
  let ?srv = "\<lambda>n::nat. Reply True (Labels [Item (Some ''Real'') (9 / 10)])"
  let ?r1 = "text_analyze_settled ''Hello world'' (Fulfilled (Some (Fin 90)))
           (Fulfilled (analyzeLinguistics ''Hello world''))
           (Fulfilled (analyzePatterns (\<lambda>r t. False) ''Hello world''))"
  let ?r2 = "image_analyze_settled sample_image (Fulfilled (Some (Fin 90))) (Fulfilled (Some (Fin 90)))
             (Fulfilled (analyzeMetadata sample_image))"
  note t = breakdown_scores_in_range
    [of "\<lambda>r t. False" ?srv NetworkError "''Hello world''" "''key''" ?r1 ?srv ?srv sample_image ?r2]
  have run1: "TextAnalyzer_analyze (\<lambda>r t. False) ?srv NetworkError ''Hello world'' ''key'' = Some ?r1"
    by (rule sample_real_run)
  have run2: "ImageAnalyzer_analyze ?srv ?srv sample_image ''key'' = Some ?r2"
    by (rule sample_real_image_run)
  have p: "\<forall>i. probabilities (?srv i)"
    using sample_probabilities by simp
  from t run1 sample_words p sample_probabilities
  have 1: "list_all in_range (map score (breakdown ?r1))" by blast
  from t run2 p have 2: "list_all in_range (map score (breakdown ?r2))" by blast
  from 1 2 run1 run2 sample_words sample_probabilities show ?thesis by blast
qed

end
